theory Spec2Isabelle
  imports Main "HOL-Library.AList"
begin

section \<open>JavaScript values\<close>

text \<open>
  The two React components of the rules-engine front end, \<^verbatim>\<open>SimulateModal\<close> and
  \<^verbatim>\<open>CreateRuleModal\<close>, work on values that come out of \<^verbatim>\<open>JSON.parse\<close> (rules fetched
  from the back end, text typed into the form). A value is modelled by \<open>jsval\<close>.

  \<^item> Numbers are the integers, \<^verbatim>\<open>NaN\<close> and the two infinities; fractional numbers are
    not represented, and the two zeros are one value.
  \<^item> A string is a list of code units (\<open>char\<close>).
  \<^item> An object is the list of its own properties in insertion order. JavaScript
    enumerates array-index-like keys first; nothing below observes the order.
\<close>

datatype jsval =
    JUndefined
  | JNull
  | JBool bool
  | JNum int
  | JNaN
  | JInfinity
  | JNegInfinity
  | JStr string
  | JArr "jsval list"
  | JObj "(string \<times> jsval) list"

datatype js_error = TypeError | SyntaxError

text \<open>
  What running a piece of code gives: a value, an exception, or \<open>Unsupported\<close> when the
  code leaves the part of JavaScript that is modelled here (string-to-number coercion,
  properties inherited from the built-in prototypes, properties of arrays and primitives
  reached through a field path).
\<close>

datatype 'a outcome = Returns 'a | Throws js_error | Unsupported

fun and_then :: "'a outcome \<Rightarrow> ('a \<Rightarrow> 'b outcome) \<Rightarrow> 'b outcome" where
  "and_then (Returns x) f = f x"
| "and_then (Throws e) f = Throws e"
| "and_then Unsupported f = Unsupported"

text \<open>ToBoolean.\<close>

fun truthy :: "jsval \<Rightarrow> bool" where
  "truthy JUndefined = False"
| "truthy JNull = False"
| "truthy (JBool b) = b"
| "truthy (JNum n) = (n \<noteq> 0)"
| "truthy JNaN = False"
| "truthy JInfinity = True"
| "truthy JNegInfinity = True"
| "truthy (JStr s) = (s \<noteq> [])"
| "truthy (JArr xs) = True"
| "truthy (JObj ps) = True"

text \<open>\<^verbatim>\<open>a || b\<close>\<close>

definition js_or :: "jsval \<Rightarrow> jsval \<Rightarrow> jsval" where
  "js_or a b = (if truthy a then a else b)"

text \<open>
  \<^verbatim>\<open>v.k\<close> for the property names the components read from rule data (\<^verbatim>\<open>type\<close>,
  \<^verbatim>\<open>clauses\<close>, \<^verbatim>\<open>fn\<close>, \<^verbatim>\<open>args\<close>, \<^verbatim>\<open>field\<close>, \<^verbatim>\<open>op\<close>, \<^verbatim>\<open>value\<close>, \<^verbatim>\<open>payload\<close>,
  \<^verbatim>\<open>matched\<close>, ...): an own property of an object, and \<^verbatim>\<open>undefined\<close> on arrays, strings,
  numbers and booleans, whose prototypes have none of these names. Reading a property of
  \<^verbatim>\<open>null\<close> or \<^verbatim>\<open>undefined\<close> throws; the callers below test for that first.
\<close>

fun get_prop :: "jsval \<Rightarrow> string \<Rightarrow> jsval" where
  "get_prop (JObj ps) k = (case map_of ps k of Some v \<Rightarrow> v | None \<Rightarrow> JUndefined)"
| "get_prop v k = JUndefined"

text \<open>\<^verbatim>\<open>v[0]\<close>\<close>

fun index0 :: "jsval \<Rightarrow> jsval" where
  "index0 (JArr xs) = (case xs of [] \<Rightarrow> JUndefined | x # rest \<Rightarrow> x)"
| "index0 (JStr s) = (case s of [] \<Rightarrow> JUndefined | c # rest \<Rightarrow> JStr [c])"
| "index0 (JObj ps) = get_prop (JObj ps) ''0''"
| "index0 v = JUndefined"

fun is_array :: "jsval \<Rightarrow> bool" where
  "is_array (JArr xs) = True"
| "is_array v = False"

subsection \<open>Strings\<close>

definition startsWith :: "string \<Rightarrow> string \<Rightarrow> bool" where
  "startsWith s p = (take (length p) s = p)"

text \<open>\<^verbatim>\<open>s.includes(needle)\<close> on strings.\<close>

fun str_includes :: "string \<Rightarrow> string \<Rightarrow> bool" where
  "str_includes [] needle = (needle = [])"
| "str_includes (c # cs) needle = (startsWith (c # cs) needle \<or> str_includes cs needle)"

text \<open>\<^verbatim>\<open>s.replace(pat, rep)\<close> with a string pattern: the first occurrence only.\<close>

fun replace_first :: "string \<Rightarrow> string \<Rightarrow> string \<Rightarrow> string" where
  "replace_first [] pat rep = (if pat = [] then rep else [])"
| "replace_first (c # cs) pat rep =
     (if startsWith (c # cs) pat then rep @ drop (length pat) (c # cs)
      else c # replace_first cs pat rep)"

text \<open>\<^verbatim>\<open>s.split(sep)\<close> with a one-character separator.\<close>

fun split_on :: "char \<Rightarrow> string \<Rightarrow> string list" where
  "split_on sep [] = [[]]"
| "split_on sep (c # cs) =
     (if c = sep then [] # split_on sep cs
      else (case split_on sep cs of [] \<Rightarrow> [[c]] | p # ps \<Rightarrow> (c # p) # ps))"

text \<open>
  \<^verbatim>\<open>x.includes(needle)\<close> as \<^verbatim>\<open>processClause\<close> calls it on a truthy value: the substring
  test on a string, membership on an array; a number, a boolean or an object of JSON data
  has no callable \<^verbatim>\<open>includes\<close>, and the call throws.
\<close>

fun js_includes :: "jsval \<Rightarrow> string \<Rightarrow> bool outcome" where
  "js_includes (JStr s) needle = Returns (str_includes s needle)"
| "js_includes (JArr xs) needle = Returns (JStr needle \<in> set xs)"
| "js_includes v needle = Throws TypeError"

subsection \<open>Decimal digits\<close>

definition digit :: "nat \<Rightarrow> char" where
  "digit d = ''0123456789'' ! (d mod 10)"

text \<open>The last \<open>w\<close> decimal digits of \<open>k\<close>, zero-padded.\<close>

fun digits :: "nat \<Rightarrow> nat \<Rightarrow> string" where
  "digits 0 k = []"
| "digits (Suc w) k = digits w (k div 10) @ [digit k]"

fun decimal_nat :: "nat \<Rightarrow> string" where
  "decimal_nat k = (if k < 10 then [digit k] else decimal_nat (k div 10) @ [digit k])"

declare decimal_nat.simps [simp del]

definition decimal :: "int \<Rightarrow> string" where
  "decimal i = (if i < 0 then CHR ''-'' # decimal_nat (nat (- i)) else decimal_nat (nat i))"

subsection \<open>Number values\<close>

text \<open>
  A Number is a double: of an integer it keeps the 53 leading binary digits. For \<open>n\<close> not
  negative, \<open>round_53 n\<close> is the nearest integer with at most 53 significant binary digits,
  the one with the even significand when two are equally near (\<open>e\<close> is the number of
  binary digits that are dropped). The Number value of an integer is an infinity when its
  rounded magnitude is \<open>2\<^sup>1\<^sup>0\<^sup>2\<^sup>4\<close> or more.
\<close>

function bit_length :: "int \<Rightarrow> nat" where
  "bit_length n = (if n \<le> 0 then 0 else Suc (bit_length (n div 2)))"
  by pat_completeness auto
termination
  by (relation "measure nat") auto

declare bit_length.simps [simp del]

definition round_53 :: "int \<Rightarrow> int" where
  "round_53 n =
     (let e = bit_length n - 53;
          q = n div 2 ^ e;
          r = n mod 2 ^ e
      in if 2 * r < 2 ^ e \<or> (2 * r = 2 ^ e \<and> even q) then q * 2 ^ e else (q + 1) * 2 ^ e)"

definition Number_value :: "int \<Rightarrow> jsval" where
  "Number_value i =
     (let m = round_53 \<bar>i\<bar>
      in if 2 ^ 1024 \<le> m then (if i < 0 then JNegInfinity else JInfinity)
         else JNum (if i < 0 then - m else m))"

subsection \<open>Arithmetic on rule values\<close>

text \<open>
  \<^verbatim>\<open>v + n\<close> and \<^verbatim>\<open>v - n\<close> for a numeric literal \<open>n\<close>: the Number value of the exact sum
  or difference. A string operand makes \<^verbatim>\<open>+\<close> a concatenation. The coercions of arrays and
  objects to strings and of strings to numbers are not modelled.
\<close>

fun js_add :: "jsval \<Rightarrow> int \<Rightarrow> jsval outcome" where
  "js_add (JNum a) n = Returns (Number_value (a + n))"
| "js_add JNaN n = Returns JNaN"
| "js_add JInfinity n = Returns JInfinity"
| "js_add JNegInfinity n = Returns JNegInfinity"
| "js_add JUndefined n = Returns JNaN"
| "js_add JNull n = Returns (JNum n)"
| "js_add (JBool b) n = Returns (JNum ((if b then 1 else 0) + n))"
| "js_add (JStr s) n = Returns (JStr (s @ decimal n))"
| "js_add v n = Unsupported"

fun js_sub :: "jsval \<Rightarrow> int \<Rightarrow> jsval outcome" where
  "js_sub (JNum a) n = Returns (Number_value (a - n))"
| "js_sub JNaN n = Returns JNaN"
| "js_sub JInfinity n = Returns JInfinity"
| "js_sub JNegInfinity n = Returns JNegInfinity"
| "js_sub JUndefined n = Returns JNaN"
| "js_sub JNull n = Returns (JNum (- n))"
| "js_sub (JBool b) n = Returns (JNum ((if b then 1 else 0) - n))"
| "js_sub v n = Unsupported"

section \<open>The runtime: clock, time zone, JSON\<close>

text \<open>
  What the components take from their environment. \<open>clock i\<close> is the time value (in
  milliseconds since the epoch, UTC) that the \<open>i\<close>-th \<^verbatim>\<open>new Date()\<close> of a run reads.
  \<open>tza_utc t\<close> is the offset of local time from UTC at the UTC time \<open>t\<close> and
  \<open>tza_local t\<close> the offset at the local time \<open>t\<close> (ECMAScript's LocalTZA with
  isUTC true and false). \<open>JSON_parse\<close> is \<^verbatim>\<open>JSON.parse\<close>, \<open>None\<close> when it throws a
  SyntaxError; \<open>JSON_stringify\<close> is \<^verbatim>\<open>JSON.stringify(v, null, 2)\<close>.
\<close>

record runtime =
  clock :: "nat \<Rightarrow> int"
  tza_utc :: "int \<Rightarrow> int"
  tza_local :: "int \<Rightarrow> int"
  JSON_parse :: "string \<Rightarrow> jsval option"
  JSON_stringify :: "jsval \<Rightarrow> string"

subsection \<open>Dates\<close>

definition msPerDay :: int where
  "msPerDay = 86400000"

definition Day :: "int \<Rightarrow> int" where
  "Day t = t div msPerDay"

definition TimeWithinDay :: "int \<Rightarrow> int" where
  "TimeWithinDay t = t mod msPerDay"

text \<open>Year, month (1 to 12) and day of the month of a day number (days since 1970-01-01).\<close>

definition civil_from_days :: "int \<Rightarrow> int \<times> int \<times> int" where
  "civil_from_days d =
     (let z = d + 719468;
          era = z div 146097;
          doe = z mod 146097;
          yoe = (doe - doe div 1460 + doe div 36524 - doe div 146096) div 365;
          doy = doe - (365 * yoe + yoe div 4 - yoe div 100);
          mp = (5 * doy + 2) div 153;
          dmon = doy - (153 * mp + 2) div 5 + 1;
          m = (if mp < 10 then mp + 3 else mp - 9);
          y = yoe + era * 400 + (if m \<le> 2 then 1 else 0)
      in (y, m, dmon))"

definition year_string :: "int \<Rightarrow> string" where
  "year_string y =
     (if 0 \<le> y \<and> y \<le> 9999 then digits 4 (nat y)
      else (if y < 0 then ''-'' else ''+'') @ digits 6 (nat \<bar>y\<bar>))"

text \<open>The \<^verbatim>\<open>YYYY-MM-DD\<close> of a day number.\<close>

definition iso_date :: "int \<Rightarrow> string" where
  "iso_date d =
     (case civil_from_days d of
        (y, m, dmon) \<Rightarrow> year_string y @ ''-'' @ digits 2 (nat m) @ ''-'' @ digits 2 (nat dmon))"

definition iso_time :: "int \<Rightarrow> string" where
  "iso_time ms =
     digits 2 (nat (ms div 3600000)) @ '':'' @ digits 2 (nat (ms div 60000 mod 60)) @ '':''
       @ digits 2 (nat (ms div 1000 mod 60)) @ ''.'' @ digits 3 (nat (ms mod 1000))"

text \<open>\<^verbatim>\<open>date.toISOString()\<close> of a time value.\<close>

definition toISOString :: "int \<Rightarrow> string" where
  "toISOString t = iso_date (Day t) @ ''T'' @ iso_time (TimeWithinDay t) @ ''Z''"

text \<open>
  \<^verbatim>\<open>date.setDate(date.getDate() - 5)\<close> on a date of time value \<open>t\<close>. ECMAScript computes
  in local time: with \<open>lt = LocalTime(t)\<close>, the new local time is
  \<open>MakeDate(MakeDay(YearFromTime(lt), MonthFromTime(lt), DateFromTime(lt) - 5),
  TimeWithinDay(lt))\<close>, that is the same time of day five days earlier, and the new time
  value is its \<open>UTC(...)\<close>.
\<close>

definition setDate_minus5 :: "runtime \<Rightarrow> int \<Rightarrow> int" where
  "setDate_minus5 rt t =
     (let lt = t + tza_utc rt t;
          newDate = (Day lt - 5) * msPerDay + TimeWithinDay lt
      in newDate - tza_local rt newDate)"

text \<open>
  \<^verbatim>\<open>const date = new Date(); date.setDate(date.getDate() - 5);
  date.toISOString().split('T')[0]\<close>, for a \<^verbatim>\<open>new Date()\<close> that reads \<open>t\<close>.
\<close>

definition signup_example :: "runtime \<Rightarrow> int \<Rightarrow> jsval" where
  "signup_example rt t =
     index0 (JArr (map JStr (split_on CHR ''T'' (toISOString (setDate_minus5 rt t)))))"

section \<open>SimulateModal: the example generator\<close>

text \<open>
  \<^verbatim>\<open>getExampleData\<close> builds two objects, \<^verbatim>\<open>eventExample\<close> and \<^verbatim>\<open>contextExample\<close>, by
  mutation; \<^verbatim>\<open>processClause\<close> is a closure over them. The model passes them as a state,
  together with the number of \<^verbatim>\<open>new Date()\<close> evaluated so far in the run.
\<close>

record state =
  eventExample :: "(string \<times> jsval) list"
  contextExample :: "(string \<times> jsval) list"
  dates :: nat

text \<open>\<^verbatim>\<open>eventExample.k = v\<close>\<close>

definition set_event :: "string \<Rightarrow> jsval \<Rightarrow> state \<Rightarrow> state" where
  "set_event k v st = st\<lparr>eventExample := AList.update k v (eventExample st)\<rparr>"

text \<open>\<^verbatim>\<open>current.k = v\<close>, for \<open>current\<close> an object.\<close>

fun assign :: "string \<Rightarrow> jsval \<Rightarrow> jsval \<Rightarrow> jsval outcome" where
  "assign k (JObj ps) v = Returns (JObj (AList.update k v ps))"
| "assign k current v = Unsupported"

subsection \<open>Function calls (lines 22 to 35)\<close>

text \<open>
  The body of \<^verbatim>\<open>if (clause.fn) { ... return; }\<close>. \<^verbatim>\<open>contextExample.user\<close> is an object
  in every state the run reaches; the model gives \<open>Unsupported\<close> otherwise.
\<close>

definition functionCall :: "runtime \<Rightarrow> jsval \<Rightarrow> state \<Rightarrow> state outcome" where
  "functionCall rt clause st =
     (if get_prop clause ''fn'' = JStr ''days_since'' \<and> truthy (get_prop clause ''args'')
         \<and> truthy (index0 (get_prop clause ''args''))
      then
        (let fieldPath = index0 (get_prop clause ''args'') in
         and_then (js_includes fieldPath ''event.timestamp'') (\<lambda>is_timestamp.
           if is_timestamp then
             Returns ((set_event ''timestamp'' (JStr (toISOString (clock rt (dates st)))) st)
                        \<lparr>dates := Suc (dates st)\<rparr>)
           else
             and_then (js_includes fieldPath ''context.user.signup_date'') (\<lambda>is_signup.
               if is_signup then
                 and_then
                   (assign ''signup_date'' (get_prop (JObj (contextExample st)) ''user'')
                      (signup_example rt (clock rt (dates st))))
                   (\<lambda>user. Returns (st\<lparr>contextExample :=
                                           AList.update ''user'' user (contextExample st),
                                         dates := Suc (dates st)\<rparr>))
               else Returns st)))
      else Returns st)"

subsection \<open>Event fields (lines 44 to 81)\<close>

definition eventField :: "runtime \<Rightarrow> string \<Rightarrow> jsval \<Rightarrow> jsval \<Rightarrow> state \<Rightarrow> state outcome" where
  "eventField rt fieldName op v st =
     (if fieldName = ''type'' then
        Returns (set_event ''type'' (js_or v (JStr ''purchase'')) st)
      else if fieldName = ''amount'' then
        and_then
          (if op = JStr ''>'' then (if truthy v then js_add v 1000 else Returns (JNum 11000))
           else if op = JStr ''>='' then (if truthy v then js_add v 100 else Returns (JNum 1100))
           else if op = JStr ''<'' then (if truthy v then js_sub v 100 else Returns (JNum 900))
           else Returns (js_or v (JNum 1000)))
          (\<lambda>amount. Returns (set_event ''amount'' amount st))
      else if fieldName = ''stock_level'' then
        and_then
          (if op = JStr ''<='' then (if truthy v then js_sub v 1 else Returns (JNum 9))
           else Returns (js_or v (JNum 10)))
          (\<lambda>level. Returns (set_event ''stock_level'' level st))
      else if fieldName = ''product_category'' then
        Returns (set_event ''product_category'' (js_or v (JStr ''alcohol'')) st)
      else if fieldName = ''day_of_week'' then
        Returns (set_event ''day_of_week''
                   (if truthy v \<and> is_array v then index0 v else JStr ''Saturday'') st)
      else if str_includes fieldName ''cart.total'' then
        (let st1 = (if \<not> truthy (get_prop (JObj (eventExample st)) ''cart'')
                    then set_event ''cart'' (JObj []) st else st)
         in and_then
              (if op = JStr ''>='' then (if truthy v then js_add v 100 else Returns (JNum 600))
               else Returns (js_or v (JNum 500)))
              (\<lambda>total.
                 and_then (assign ''total'' (get_prop (JObj (eventExample st1)) ''cart'') total)
                   (\<lambda>cart. Returns (set_event ''cart'' cart st1))))
      else if fieldName = ''timestamp'' then
        Returns ((set_event ''timestamp'' (JStr (toISOString (clock rt (dates st)))) st)
                   \<lparr>dates := Suc (dates st)\<rparr>)
      else Returns st)"

subsection \<open>Context fields (lines 83 to 125)\<close>

text \<open>The if-chain on \<^verbatim>\<open>lastField\<close> (lines 97 to 124); \<open>now\<close> is what \<^verbatim>\<open>new Date()\<close> reads.\<close>

definition assignLast :: "runtime \<Rightarrow> int \<Rightarrow> jsval \<Rightarrow> jsval \<Rightarrow> string \<Rightarrow> jsval \<Rightarrow> jsval outcome" where
  "assignLast rt now op v lastField current =
     (if lastField = ''tier'' then assign ''tier'' current (js_or v (JStr ''premium''))
      else if lastField = ''account_status'' then
        (if op = JStr ''!='' then
           assign ''account_status'' current
             (if v = JStr ''frozen'' then JStr ''active'' else JStr ''active'')
         else assign ''account_status'' current (js_or v (JStr ''active'')))
      else if lastField = ''signup_date'' then
        assign ''signup_date'' current (signup_example rt now)
      else if lastField = ''transaction_countries'' then
        (if op = JStr ''contains'' then
           assign ''transaction_countries'' current
             (if truthy v then JArr [v, JStr ''UK'', JStr ''CA'']
              else JArr [JStr ''US'', JStr ''UK''])
         else
           assign ''transaction_countries'' current
             (if is_array v then v else JArr [js_or v (JStr ''US'')]))
      else if lastField = ''suspicious_activity'' then
        assign ''suspicious_activity'' current (if v \<noteq> JUndefined then v else JBool True)
      else if lastField = ''age'' then
        and_then
          (if op = JStr ''<'' then (if truthy v then js_sub v 1 else Returns (JNum 20))
           else Returns (js_or v (JNum 25)))
          (assign ''age'' current)
      else Returns current)"

text \<open>
  The names every object inherits from \<^verbatim>\<open>Object.prototype\<close>. A path segment that is one
  of them, and not an own property, reads the inherited member: not modelled.
\<close>

definition Object_prototype_names :: "string list" where
  "Object_prototype_names =
     [''constructor'', ''__proto__'', ''hasOwnProperty'', ''isPrototypeOf'',
      ''propertyIsEnumerable'', ''toLocaleString'', ''toString'', ''valueOf'',
      ''__defineGetter__'', ''__defineSetter__'', ''__lookupGetter__'', ''__lookupSetter__'']"

text \<open>
  The loop of lines 86 to 93 followed by the assignment to the last field: \<open>walk path f
  current\<close> is the object \<open>current\<close> after
  \<^verbatim>\<open>for (i < path.length - 1) { if (!current[path[i]]) current[path[i]] = {}; current =
  current[path[i]]; }\<close> and then \<open>f\<close> applied at the last segment. The objects on the
  path are rebuilt on the way back, which is what the in-place mutation leaves behind.
\<close>

fun walk :: "string list \<Rightarrow> (string \<Rightarrow> jsval \<Rightarrow> jsval outcome) \<Rightarrow> jsval \<Rightarrow> jsval outcome" where
  "walk [] f current = f [] current"
| "walk [lastField] f current = f lastField current"
| "walk (k # k' # ks) f current =
     (case current of
        JObj ps \<Rightarrow>
          (if map_of ps k = None \<and> k \<in> set Object_prototype_names then Unsupported
           else and_then (walk (k' # ks) f (js_or (get_prop current k) (JObj [])))
                  (\<lambda>child. Returns (JObj (AList.update k child ps))))
      | other \<Rightarrow> Unsupported)"

definition contextField :: "runtime \<Rightarrow> string \<Rightarrow> jsval \<Rightarrow> jsval \<Rightarrow> state \<Rightarrow> state outcome" where
  "contextField rt field op v st =
     (let fieldPath = split_on CHR ''.'' (replace_first field ''context.'' []) in
      and_then (walk fieldPath (assignLast rt (clock rt (dates st)) op v) (JObj (contextExample st)))
        (\<lambda>context.
           case context of
             JObj ps \<Rightarrow>
               Returns (st\<lparr>contextExample := ps,
                          dates := (if fieldPath \<noteq> [] \<and> last fieldPath = ''signup_date''
                                    then Suc (dates st) else dates st)\<rparr>)
           | other \<Rightarrow> Unsupported))"

subsection \<open>Field comparisons (lines 37 to 125)\<close>

text \<open>
  A truthy \<^verbatim>\<open>field\<close> that is not a string has no \<^verbatim>\<open>startsWith\<close>: the call at line 45
  throws a TypeError.
\<close>

definition fieldComparison :: "runtime \<Rightarrow> jsval \<Rightarrow> state \<Rightarrow> state outcome" where
  "fieldComparison rt clause st =
     (let field = js_or (get_prop clause ''field'') (JStr []);
          op = js_or (get_prop clause ''op'') (JStr []);
          v = get_prop clause ''value''
      in if \<not> truthy field then Returns st
         else
           (case field of
              JStr f \<Rightarrow>
                and_then
                  (if startsWith f ''event.''
                   then eventField rt (replace_first f ''event.'' []) op v st
                   else Returns st)
                  (\<lambda>st1. if startsWith f ''context.'' then contextField rt f op v st1
                          else Returns st1)
            | other \<Rightarrow> Throws TypeError))"

subsection \<open>processClause (lines 13 to 126)\<close>

text \<open>\<^verbatim>\<open>xs.forEach(f)\<close>: in order, stopping at the first call that does not return.\<close>

fun forEach :: "('a \<Rightarrow> 's \<Rightarrow> 's outcome) \<Rightarrow> 'a list \<Rightarrow> 's \<Rightarrow> 's outcome" where
  "forEach f [] st = Returns st"
| "forEach f (x # xs) st = and_then (f x st) (forEach f xs)"

lemma forEach_cong [fundef_cong]:
  "xs = ys \<Longrightarrow> st = st' \<Longrightarrow> (\<And>x s. x \<in> set ys \<Longrightarrow> f x s = g x s)
     \<Longrightarrow> forEach f xs st = forEach g ys st'"
proof (induction ys arbitrary: xs st st')
  case Nil
  then show ?case by simp
next
  case (Cons y ys)
  have "forEach f ys s = forEach g ys s" for s
    by (rule Cons.IH) (simp_all add: Cons.prems)
  then have "forEach f ys = forEach g ys"
    by (rule ext)
  with Cons.prems show ?case by simp
qed

lemma size_map_of:
  "map_of ps k = Some v \<Longrightarrow> size v < Suc (size_list (size_prod (\<lambda>x. 0) size) ps)"
  by (induction ps) (auto split: if_splits)

lemma size_clauses:
  "get_prop clause ''clauses'' = JArr cs \<Longrightarrow> c \<in> set cs \<Longrightarrow> size c < size clause"
proof (cases clause)
  case (JObj ps)
  assume "get_prop clause ''clauses'' = JArr cs" and "c \<in> set cs"
  with JObj have "map_of ps ''clauses'' = Some (JArr cs)"
    by (simp split: option.splits)
  then have "size (JArr cs) < size clause"
    using JObj size_map_of by fastforce
  moreover have "size c < size (JArr cs)"
    using \<open>c \<in> set cs\<close> by (induction cs) auto
  ultimately show ?thesis by simp
qed simp_all

text \<open>
  The call of \<^verbatim>\<open>forEach\<close> on a truthy \<^verbatim>\<open>clauses\<close> that is not an array throws a TypeError
  (no such method).
\<close>

function processClause :: "runtime \<Rightarrow> jsval \<Rightarrow> state \<Rightarrow> state outcome" where
  "processClause rt clause st =
     (if \<not> truthy clause then Returns st
      else if truthy (get_prop clause ''type'') \<and> truthy (get_prop clause ''clauses'') then
        (case get_prop clause ''clauses'' of
           JArr cs \<Rightarrow> forEach (processClause rt) cs st
         | other \<Rightarrow> Throws TypeError)
      else if truthy (get_prop clause ''fn'') then functionCall rt clause st
      else fieldComparison rt clause st)"
  by pat_completeness auto
termination
  by (relation "measure (\<lambda>(rt, clause, st). size clause)") (auto simp: size_clauses)

declare processClause.simps [simp del]

subsection \<open>getExampleData (lines 5 to 147)\<close>

text \<open>
  \<open>rule\<close> is the component's \<^verbatim>\<open>rule\<close> prop: \<^verbatim>\<open>rule?.conditions\<close> is \<^verbatim>\<open>undefined\<close> when the
  rule is \<^verbatim>\<open>null\<close> or \<^verbatim>\<open>undefined\<close>. The result is the object \<^verbatim>\<open>{ event, context }\<close>.
\<close>

text \<open>The state in which \<^verbatim>\<open>getExampleData\<close> starts (lines 9 and 10).\<close>

definition initial_state :: state where
  "initial_state = \<lparr>eventExample = [], contextExample = [(''user'', JObj [])], dates = 0\<rparr>"

text \<open>Processing all clauses (lines 128 to 133).\<close>

definition processConditions :: "runtime \<Rightarrow> jsval \<Rightarrow> state outcome" where
  "processConditions rt conditions =
     (if truthy (get_prop conditions ''clauses'') then
        (case get_prop conditions ''clauses'' of
           JArr cs \<Rightarrow> forEach (processClause rt) cs initial_state
         | other \<Rightarrow> Throws TypeError)
      else if truthy (get_prop conditions ''field'') then processClause rt conditions initial_state
      else Returns initial_state)"

text \<open>The defaults and the result (lines 135 to 146).\<close>

definition exampleData :: "state \<Rightarrow> jsval outcome" where
  "exampleData st =
     (let event = (if eventExample st = []
                   then [(''type'', JStr ''purchase''), (''amount'', JNum 1000)]
                   else eventExample st)
      in case get_prop (JObj (contextExample st)) ''user'' of
           JObj user \<Rightarrow>
             Returns (JObj [(''event'', JObj event),
                            (''context'', JObj (if user = []
                               then AList.update ''user'' (JObj [(''tier'', JStr ''premium'')])
                                      (contextExample st)
                               else contextExample st))])
         | other \<Rightarrow> Unsupported)"

definition getExampleData :: "runtime \<Rightarrow> jsval \<Rightarrow> jsval outcome" where
  "getExampleData rt rule =
     and_then (processConditions rt (js_or (get_prop rule ''conditions'') (JObj []))) exampleData"

section \<open>What a handler does\<close>

text \<open>
  An event handler of a component is modelled by the list of the effects it has, in
  order: calls of the callbacks it was given (\<^verbatim>\<open>onSimulate\<close>, \<^verbatim>\<open>onCreate\<close>), of
  \<^verbatim>\<open>alert\<close> and \<^verbatim>\<open>console\<close>, and of the state setters of the component. The callbacks
  are the asynchronous functions of \<^verbatim>\<open>App\<close>; a call of one returns a promise and does not
  throw.
\<close>

datatype effect =
    ConsoleLog string
  | ConsoleError string
  | Alert string
  | OnSimulate jsval jsval jsval
  | OnCreate jsval
  | SetEventData string
  | SetContextData string

text \<open>\<^verbatim>\<open>JSON.parse(text)\<close>\<close>

definition parse_json :: "runtime \<Rightarrow> string \<Rightarrow> jsval outcome" where
  "parse_json rt text = (case JSON_parse rt text of None \<Rightarrow> Throws SyntaxError | Some v \<Rightarrow> Returns v)"

fun is_callback :: "effect \<Rightarrow> bool" where
  "is_callback (OnSimulate i e c) = True"
| "is_callback (OnCreate r) = True"
| "is_callback e = False"

fun is_state_change :: "effect \<Rightarrow> bool" where
  "is_state_change (SetEventData s) = True"
| "is_state_change (SetContextData s) = True"
| "is_state_change e = False"

section \<open>SimulateModal: running and showing a simulation\<close>

text \<open>The two text areas of the modal.\<close>

record simulate_inputs =
  eventData :: string
  contextData :: string

text \<open>
  \<^verbatim>\<open>run\<close> (lines 163 to 171). \<^verbatim>\<open>rule.id\<close> throws inside the \<^verbatim>\<open>try\<close> when \<^verbatim>\<open>rule\<close> is
  \<^verbatim>\<open>null\<close> or \<^verbatim>\<open>undefined\<close>.
\<close>

definition run :: "runtime \<Rightarrow> jsval \<Rightarrow> simulate_inputs \<Rightarrow> effect list" where
  "run rt rule inputs =
     (case and_then (parse_json rt (eventData inputs)) (\<lambda>event.
             and_then (parse_json rt (contextData inputs)) (\<lambda>context.
               if rule = JNull \<or> rule = JUndefined then Throws TypeError
               else Returns [OnSimulate (get_prop rule ''id'') event context]))
      of Returns effects \<Rightarrow> effects
       | other \<Rightarrow> [Alert ''Invalid JSON''])"

text \<open>The "Reset Examples" button (lines 250 to 254).\<close>

definition resetExamples :: "runtime \<Rightarrow> jsval \<Rightarrow> effect list outcome" where
  "resetExamples rt rule =
     and_then (getExampleData rt rule) (\<lambda>examples.
       Returns [SetEventData (JSON_stringify rt (get_prop examples ''event'')),
                SetContextData (JSON_stringify rt (get_prop examples ''context''))])"

subsection \<open>The result panel (lines 262 to 286)\<close>

text \<open>
  The rendered tree, without styles. The emoji in front of the two headlines are left
  out.
\<close>

datatype vnode = Text string | Elem string "vnode list"

text \<open>
  What React renders for a falsy child, as in \<^verbatim>\<open>{x && <div/>}\<close> with \<open>x\<close> falsy:
  nothing for \<^verbatim>\<open>false\<close>, \<^verbatim>\<open>null\<close>, \<^verbatim>\<open>undefined\<close> and the empty string, the number for
  \<^verbatim>\<open>0\<close> and \<^verbatim>\<open>NaN\<close>.
\<close>

fun render_falsy :: "jsval \<Rightarrow> vnode list" where
  "render_falsy (JNum n) = [Text (decimal n)]"
| "render_falsy JNaN = [Text ''NaN'']"
| "render_falsy v = []"

text \<open>\<^verbatim>\<open>{JSON.stringify(v, null, 2)}\<close> as a child: \<^verbatim>\<open>JSON.stringify(undefined)\<close> is \<^verbatim>\<open>undefined\<close>.\<close>

definition stringify_child :: "runtime \<Rightarrow> jsval \<Rightarrow> vnode list" where
  "stringify_child rt v = (if v = JUndefined then [] else [Text (JSON_stringify rt v)])"

definition actions_block :: "runtime \<Rightarrow> jsval \<Rightarrow> vnode list" where
  "actions_block rt result =
     [Elem ''div'' [Elem ''strong'' [Text ''Actions that would execute:'']],
      Elem ''pre'' (stringify_child rt (get_prop result ''would_execute''))]"

definition resultPanel :: "runtime \<Rightarrow> jsval \<Rightarrow> vnode list" where
  "resultPanel rt result =
     (if \<not> truthy result then render_falsy result
      else
        [Elem ''div''
           ([Elem ''div''
               [Text (if truthy (get_prop result ''matched'') then ''Matched'' else ''Not Matched'')]]
            @ (if truthy (get_prop result ''matched'') then actions_block rt result
               else render_falsy (get_prop result ''matched''))
            @ (if truthy (get_prop result ''explanation'') then
                 [Elem ''div''
                    [Elem ''strong'' [Text ''Explanation:''],
                     Elem ''pre'' (stringify_child rt (get_prop result ''explanation''))]]
               else render_falsy (get_prop result ''explanation'')))])"

text \<open>Whether a tree shows the heading of the would-execute block.\<close>

fun shows_actions :: "vnode \<Rightarrow> bool" where
  "shows_actions (Text s) = False"
| "shows_actions (Elem tag children) =
     ((tag = ''strong'' \<and> children = [Text ''Actions that would execute:''])
      \<or> (\<exists>c \<in> set children. shows_actions c))"

section \<open>CreateRuleModal\<close>

text \<open>
  The form's state. \<^verbatim>\<open>priority\<close> is the number \<^verbatim>\<open>100\<close> at first (line 304); the only
  assignment to it (line 394) stores \<^verbatim>\<open>e.target.value\<close>, the text of the number input. So
  the field holds the number \<^verbatim>\<open>100\<close> or a text.
\<close>

datatype priority_field = PriorityNumber100 | PriorityText string

record formData =
  name :: string
  priority :: priority_field
  description :: string
  conditions :: string
  actions :: string
  tags :: string
  stop_on_match :: bool

definition default_conditions :: jsval where
  "default_conditions =
     JObj [(''type'', JStr ''AND''),
           (''clauses'', JArr
              [JObj [(''field'', JStr ''context.user.tier''), (''op'', JStr ''==''),
                     (''value'', JStr ''premium'')],
               JObj [(''field'', JStr ''event.cart.total''), (''op'', JStr ''>=''),
                     (''value'', JNum 1000)]])]"

definition default_actions :: jsval where
  "default_actions =
     JArr [JObj [(''type'', JStr ''apply_discount''), (''payload'', JObj [(''percent'', JNum 10)])],
           JObj [(''type'', JStr ''log''), (''payload'', JObj [(''tag'', JStr ''promo_applied'')])]]"

text \<open>The initial \<^verbatim>\<open>useState\<close> value (lines 302 to 323).\<close>

definition initial_formData :: "runtime \<Rightarrow> formData" where
  "initial_formData rt =
     \<lparr>name = ''10% off for premium users'',
      priority = PriorityNumber100,
      description = [],
      conditions = JSON_stringify rt default_conditions,
      actions = JSON_stringify rt default_actions,
      tags = ''discount, promo'',
      stop_on_match = False\<rparr>"

subsection \<open>parseInt, trim\<close>

text \<open>
  White space and line terminators among the code units below 256: tab, line feed,
  vertical tab, form feed, carriage return, space, no-break space.
\<close>

definition js_whitespace :: "char \<Rightarrow> bool" where
  "js_whitespace c = (c \<in> set [CHR 0x09, CHR 0x0A, CHR 0x0B, CHR 0x0C, CHR 0x0D, CHR 0x20, CHR 0xA0])"

definition js_trim :: "string \<Rightarrow> string" where
  "js_trim s = rev (dropWhile js_whitespace (rev (dropWhile js_whitespace s)))"

definition is_digit :: "char \<Rightarrow> bool" where
  "is_digit c = (c \<in> set ''0123456789'')"

definition digit_value :: "char \<Rightarrow> nat" where
  "digit_value c = of_char c - 48"

definition digits_value :: "string \<Rightarrow> nat" where
  "digits_value ds = foldl (\<lambda>n c. 10 * n + digit_value c) 0 ds"

text \<open>
  \<^verbatim>\<open>parseInt(s, 10)\<close> on a string: leading white space is skipped, a sign is read, and the
  longest run of digits that follows is read in base 10; the result is the Number value of
  that integer, and \<^verbatim>\<open>NaN\<close> when there is no digit. (ECMAScript lets an implementation
  replace the digits after the 20th significant one by zeros before rounding; the engines in
  use round the integer itself, as is done here.)
\<close>

definition parseInt10 :: "string \<Rightarrow> jsval" where
  "parseInt10 s =
     (let t = dropWhile js_whitespace s;
          negative = (t \<noteq> [] \<and> hd t = CHR ''-'');
          u = (if t \<noteq> [] \<and> (hd t = CHR ''-'' \<or> hd t = CHR ''+'') then tl t else t);
          ds = takeWhile is_digit u
      in if ds = [] then JNaN
         else Number_value (if negative then - int (digits_value ds) else int (digits_value ds)))"

text \<open>
  \<^verbatim>\<open>parseInt(formData.priority || 100, 10)\<close>. The number \<^verbatim>\<open>100\<close> (of the initial state, or
  put in place of the empty text) is first converted to the string \<^verbatim>\<open>"100"\<close>.
\<close>

definition submitted_priority :: "priority_field \<Rightarrow> jsval" where
  "submitted_priority p =
     (case p of
        PriorityNumber100 \<Rightarrow> parseInt10 (decimal 100)
      | PriorityText s \<Rightarrow> parseInt10 (if s \<noteq> [] then s else decimal 100))"

text \<open>\<^verbatim>\<open>formData.tags.split(",").map((t) => t.trim()).filter(Boolean)\<close>\<close>

definition submitted_tags :: "string \<Rightarrow> string list" where
  "submitted_tags text = filter (\<lambda>t. t \<noteq> []) (map js_trim (split_on CHR '','' text))"

subsection \<open>handleSubmit (lines 325 to 352)\<close>

text \<open>
  \<^verbatim>\<open>(a) => ({ type: a.type || "unknown", payload: a.payload || {} })\<close>: reading \<^verbatim>\<open>a.type\<close>
  throws when \<open>a\<close> is \<^verbatim>\<open>null\<close>.
\<close>

definition normalize_action :: "jsval \<Rightarrow> jsval outcome" where
  "normalize_action a =
     (if a = JNull \<or> a = JUndefined then Throws TypeError
      else Returns (JObj [(''type'', js_or (get_prop a ''type'') (JStr ''unknown'')),
                          (''payload'', js_or (get_prop a ''payload'') (JObj []))]))"

text \<open>\<^verbatim>\<open>xs.map(f)\<close> for an \<open>f\<close> that may throw.\<close>

fun map_outcome :: "('a \<Rightarrow> 'b outcome) \<Rightarrow> 'a list \<Rightarrow> 'b list outcome" where
  "map_outcome f [] = Returns []"
| "map_outcome f (x # xs) =
     and_then (f x) (\<lambda>y. and_then (map_outcome f xs) (\<lambda>ys. Returns (y # ys)))"

text \<open>The body of the \<^verbatim>\<open>try\<close> up to \<^verbatim>\<open>ruleData\<close> (lines 328 to 344).\<close>

definition ruleData :: "runtime \<Rightarrow> formData \<Rightarrow> jsval outcome" where
  "ruleData rt fd =
     and_then (parse_json rt (conditions fd)) (\<lambda>conds.
       and_then (parse_json rt (actions fd)) (\<lambda>actionsRaw.
         and_then
           (case actionsRaw of
              JArr xs \<Rightarrow> map_outcome normalize_action xs
            | other \<Rightarrow> Returns [])
           (\<lambda>acts.
              Returns (JObj
                [(''name'', JStr (name fd)),
                 (''priority'', submitted_priority (priority fd)),
                 (''conditions'', conds),
                 (''actions'', JArr acts),
                 (''tags'', JArr (map JStr (submitted_tags (tags fd)))),
                 (''stop_on_match'', JBool (stop_on_match fd)),
                 (''description'', if description fd \<noteq> [] then JStr (description fd) else JNull)]))))"

definition handleSubmit :: "runtime \<Rightarrow> formData \<Rightarrow> effect list" where
  "handleSubmit rt fd =
     ConsoleLog ''handleSubmit clicked'' #
     (case ruleData rt fd of
        Returns rd \<Rightarrow> [ConsoleLog ''creating rule:'', OnCreate rd]
      | other \<Rightarrow>
          [ConsoleError ''invalid json'',
           Alert ''Invalid JSON in conditions or actions. Check console for details.''])"

section \<open>Two concrete runtimes\<close>

text \<open>
  \<^verbatim>\<open>JSON.stringify(v, null, 2)\<close> on the values modelled here: members and elements on lines
  of their own, indented by two spaces per level; \<^verbatim>\<open>NaN\<close> and an \<^verbatim>\<open>undefined\<close> element
  print as \<^verbatim>\<open>null\<close>, a property whose value is \<^verbatim>\<open>undefined\<close> is left out. (Of
  \<^verbatim>\<open>undefined\<close> itself \<^verbatim>\<open>JSON.stringify\<close> is \<^verbatim>\<open>undefined\<close>; the components test for that
  where it can happen.)
\<close>

definition hex_digit :: "nat \<Rightarrow> char" where
  "hex_digit d = ''0123456789abcdef'' ! (d mod 16)"

definition escape_char :: "char \<Rightarrow> string" where
  "escape_char c =
     (if c = CHR 0x22 then [CHR 0x5C, CHR 0x22]
      else if c = CHR 0x5C then [CHR 0x5C, CHR 0x5C]
      else if c = CHR 0x08 then [CHR 0x5C, CHR ''b'']
      else if c = CHR 0x0C then [CHR 0x5C, CHR ''f'']
      else if c = CHR 0x0A then [CHR 0x5C, CHR ''n'']
      else if c = CHR 0x0D then [CHR 0x5C, CHR ''r'']
      else if c = CHR 0x09 then [CHR 0x5C, CHR ''t'']
      else if (of_char c :: nat) < 32 then
        [CHR 0x5C, CHR ''u'', CHR ''0'', CHR ''0'', hex_digit (of_char c div 16), hex_digit (of_char c)]
      else [c])"

definition quote :: "string \<Rightarrow> string" where
  "quote s = CHR 0x22 # concat (map escape_char s) @ [CHR 0x22]"

text \<open>The lines \<open>ls\<close>, each indented by \<open>n\<close> spaces, separated by a comma and a line feed.\<close>

fun indented_lines :: "nat \<Rightarrow> string list \<Rightarrow> string" where
  "indented_lines n [] = []"
| "indented_lines n [l] = replicate n CHR '' '' @ l"
| "indented_lines n (l # l' # ls) =
     replicate n CHR '' '' @ l @ [CHR '','', CHR 0x0A] @ indented_lines n (l' # ls)"

fun stringify_indent :: "nat \<Rightarrow> jsval \<Rightarrow> string"
  and stringify_items :: "nat \<Rightarrow> jsval list \<Rightarrow> string list"
  and stringify_props :: "nat \<Rightarrow> (string \<times> jsval) list \<Rightarrow> string list"
where
  "stringify_indent n JUndefined = ''null''"
| "stringify_indent n JNull = ''null''"
| "stringify_indent n (JBool b) = (if b then ''true'' else ''false'')"
| "stringify_indent n (JNum i) = decimal i"
| "stringify_indent n JNaN = ''null''"
| "stringify_indent n JInfinity = ''null''"
| "stringify_indent n JNegInfinity = ''null''"
| "stringify_indent n (JStr s) = quote s"
| "stringify_indent n (JArr xs) =
     (if xs = [] then ''[]''
      else ''['' @ [CHR 0x0A] @ indented_lines (n + 2) (stringify_items (n + 2) xs)
           @ [CHR 0x0A] @ replicate n CHR '' '' @ '']'')"
| "stringify_indent n (JObj ps) =
     (if stringify_props (n + 2) ps = [] then ''{}''
      else ''{'' @ [CHR 0x0A] @ indented_lines (n + 2) (stringify_props (n + 2) ps)
           @ [CHR 0x0A] @ replicate n CHR '' '' @ ''}'')"
| "stringify_items n [] = []"
| "stringify_items n (x # xs) = stringify_indent n x # stringify_items n xs"
| "stringify_props n [] = []"
| "stringify_props n ((k, v) # ps) =
     (if v = JUndefined then stringify_props n ps
      else (quote k @ '': '' @ stringify_indent n v) # stringify_props n ps)"

definition JSON_stringify_2 :: "jsval \<Rightarrow> string" where
  "JSON_stringify_2 v = stringify_indent 0 v"

text \<open>
  For evaluating the components on concrete inputs: \<open>sample_JSON_parse\<close> lists the values
  of \<^verbatim>\<open>JSON.parse\<close> on the texts used below, among them the texts of the two default
  values of the create-rule form.
\<close>

definition default_conditions_text :: string where
  \<open>default_conditions_text =
     ''{\<newline>  "type": "AND",\<newline>  "clauses": [\<newline>    {\<newline>      "field": "context.user.tier",\<newline>      "op": "==",\<newline>      "value": "premium"\<newline>    },\<newline>    {\<newline>      "field": "event.cart.total",\<newline>      "op": ">=",\<newline>      "value": 1000\<newline>    }\<newline>  ]\<newline>}''\<close>

definition default_actions_text :: string where
  \<open>default_actions_text =
     ''[\<newline>  {\<newline>    "type": "apply_discount",\<newline>    "payload": {\<newline>      "percent": 10\<newline>    }\<newline>  },\<newline>  {\<newline>    "type": "log",\<newline>    "payload": {\<newline>      "tag": "promo_applied"\<newline>    }\<newline>  }\<newline>]''\<close>

definition sample_JSON_parse :: "string \<Rightarrow> jsval option" where
  \<open>sample_JSON_parse =
     map_of
       [(''{}'', JObj []),
        (''[]'', JArr []),
        (''[null]'', JArr [JNull]),
        (''"x"'', JStr ''x''),
        (''[{"type": 5, "payload": "x"}]'',
           JArr [JObj [(''type'', JNum 5), (''payload'', JStr ''x'')]]),
        (''[{"type": "log"}, 7]'', JArr [JObj [(''type'', JStr ''log'')], JNum 7]),
        (''{"type": "purchase", "amount": 1000}'',
           JObj [(''type'', JStr ''purchase''), (''amount'', JNum 1000)]),
        (''{"user": {"tier": "premium"}}'',
           JObj [(''user'', JObj [(''tier'', JStr ''premium'')])]),
        (default_conditions_text, default_conditions),
        (default_actions_text, default_actions)]\<close>

lemma default_texts:
  "JSON_stringify_2 default_conditions = default_conditions_text"
  "JSON_stringify_2 default_actions = default_actions_text"
  by code_simp+

text \<open>A host on UTC, at 2024-04-01T23:30:00.000Z.\<close>

definition utc_runtime :: runtime where
  "utc_runtime =
     \<lparr>clock = (\<lambda>i. 1712014200000),
      tza_utc = (\<lambda>t. 0),
      tza_local = (\<lambda>t. 0),
      JSON_parse = sample_JSON_parse,
      JSON_stringify = JSON_stringify_2\<rparr>"


section \<open>Notions used in the statements\<close>

text \<open>The rules a handler passed to \<^verbatim>\<open>onCreate\<close>, in order.\<close>

fun onCreate_calls :: "effect list \<Rightarrow> jsval list" where
  "onCreate_calls [] = []"
| "onCreate_calls (OnCreate rd # es) = rd # onCreate_calls es"
| "onCreate_calls (e # es) = onCreate_calls es"

text \<open>Strings joined by a separator: the inverse of splitting.\<close>

fun join_with :: "char \<Rightarrow> string list \<Rightarrow> string" where
  "join_with sep [] = []"
| "join_with sep [p] = p"
| "join_with sep (p # q # ps) = p @ sep # join_with sep (q # ps)"

section \<open>General lemmas\<close>

lemma and_then_Returns:
  "and_then m f = Returns y \<longleftrightarrow> (\<exists>x. m = Returns x \<and> f x = Returns y)"
  by (cases m) auto

lemma split_on_not_Nil: "split_on sep s \<noteq> []"
  by (induction s) (auto split: list.splits)

lemma join_split_on: "join_with sep (split_on sep s) = s"
proof (induction s)
  case Nil
  show ?case by simp
next
  case (Cons c cs)
  obtain p ps where sp: "split_on sep cs = p # ps"
    using split_on_not_Nil [of sep cs] by (cases "split_on sep cs") auto
  with Cons show ?case by (cases ps) auto
qed

lemma split_on_no_sep: "p \<in> set (split_on sep s) \<Longrightarrow> sep \<notin> set p"
  by (induction s arbitrary: p) (auto split: if_splits list.splits)

lemma last_dropWhile: "dropWhile P xs \<noteq> [] \<Longrightarrow> last (dropWhile P xs) = last xs"
  by (induction xs) (auto split: if_splits)

lemma js_trim_hd: "js_trim s \<noteq> [] \<Longrightarrow> \<not> js_whitespace (hd (js_trim s))"
proof -
  assume ne: "js_trim s \<noteq> []"
  let ?t = "dropWhile js_whitespace s"
  let ?u = "dropWhile js_whitespace (rev ?t)"
  from ne have u: "?u \<noteq> []" by (simp add: js_trim_def)
  have t: "?t \<noteq> []"
  proof
    assume "?t = []"
    then have "?u = []" by (simp only: rev.simps(1) dropWhile.simps(1))
    with u show False by simp
  qed
  have "hd (js_trim s) = last ?u"
    using u by (simp add: js_trim_def hd_rev)
  also have "\<dots> = last (rev ?t)"
    using u by (rule last_dropWhile)
  also have "\<dots> = hd ?t"
    using t by (simp add: last_rev)
  finally show ?thesis
    using t hd_dropWhile [of js_whitespace s] by simp
qed

lemma js_trim_last: "js_trim s \<noteq> [] \<Longrightarrow> \<not> js_whitespace (last (js_trim s))"
proof -
  assume ne: "js_trim s \<noteq> []"
  let ?u = "dropWhile js_whitespace (rev (dropWhile js_whitespace s))"
  from ne have u: "?u \<noteq> []" by (simp add: js_trim_def)
  have "last (js_trim s) = hd ?u"
    using u by (simp add: js_trim_def last_rev)
  then show ?thesis
    using u hd_dropWhile [of js_whitespace "rev (dropWhile js_whitespace s)"] by simp
qed

lemma js_trim_subset: "set (js_trim s) \<subseteq> set s"
  by (auto simp: js_trim_def dest!: set_dropWhileD)

lemma handleSubmit_created:
  "OnCreate rd \<in> set (handleSubmit rt fd) \<longleftrightarrow> ruleData rt fd = Returns rd"
  by (auto simp: handleSubmit_def split: outcome.splits)

section \<open>The tags of a submitted rule\<close>

text \<open>
  Claim C10. Every rule that \<^verbatim>\<open>handleSubmit\<close> passes to \<^verbatim>\<open>onCreate\<close> has as its tags the
  pieces of the tag input between its commas (joined by commas, the pieces give the
  input back), each trimmed of surrounding white space, with the empty ones removed: no
  submitted tag is the empty string, none contains a comma, none starts or ends with
  white space.
\<close>

theorem submitted_tags_trimmed_nonempty:
  assumes "OnCreate rd \<in> set (handleSubmit rt fd)"
  shows "\<exists>ts. get_prop rd ''tags'' = JArr (map JStr ts)
           \<and> ts = filter (\<lambda>t. t \<noteq> []) (map js_trim (split_on CHR '','' (tags fd)))
           \<and> join_with CHR '','' (split_on CHR '','' (tags fd)) = tags fd
           \<and> [] \<notin> set ts
           \<and> (\<forall>t \<in> set ts. CHR '','' \<notin> set t \<and> \<not> js_whitespace (hd t)
                                \<and> \<not> js_whitespace (last t))"
proof -
  let ?ts = "submitted_tags (tags fd)"
  from assms have "ruleData rt fd = Returns rd"
    by (simp add: handleSubmit_created)
  then have "get_prop rd ''tags'' = JArr (map JStr ?ts)"
    by (auto simp: ruleData_def and_then_Returns split: outcome.splits)
  moreover have "CHR '','' \<notin> set t \<and> \<not> js_whitespace (hd t) \<and> \<not> js_whitespace (last t)"
    if "t \<in> set ?ts" for t
  proof -
    from that obtain p
      where p: "p \<in> set (split_on CHR '','' (tags fd))" and t: "t = js_trim p" "t \<noteq> []"
      by (auto simp: submitted_tags_def)
    from p have "CHR '','' \<notin> set p" by (rule split_on_no_sep)
    with t show ?thesis
      using js_trim_subset [of p] js_trim_hd [of p] js_trim_last [of p] by auto
  qed
  ultimately show ?thesis
    by (auto simp: submitted_tags_def join_split_on)
qed

text \<open>A form with the tag input \<^verbatim>\<open>" a , ,b,"\<close>, and the rule it submits.\<close>

definition tagged_form :: formData where
  "tagged_form =
     \<lparr>name = ''n'', priority = PriorityText ''7'', description = [], conditions = ''{}'',
      actions = ''[]'', tags = '' a , ,b,'', stop_on_match = False\<rparr>"

definition tagged_rule :: jsval where
  "tagged_rule =
     JObj [(''name'', JStr ''n''), (''priority'', JNum 7), (''conditions'', JObj []),
           (''actions'', JArr []), (''tags'', JArr [JStr ''a'', JStr ''b'']),
           (''stop_on_match'', JBool False), (''description'', JNull)]"

theorem submitted_tags_witness:
  "OnCreate tagged_rule \<in> set (handleSubmit utc_runtime tagged_form)
   \<and> get_prop tagged_rule ''tags'' = JArr [JStr ''a'', JStr ''b'']"
proof -
  have h: "OnCreate tagged_rule \<in> set (handleSubmit utc_runtime tagged_form)"
    by code_simp
  from submitted_tags_trimmed_nonempty [OF h]
  show ?thesis using h by (simp add: tagged_rule_def)
qed

section \<open>The priority of a submitted rule\<close>





























section \<open>The actions of a submitted rule\<close>

fun is_string :: "jsval \<Rightarrow> bool" where
  "is_string (JStr s) = True"
| "is_string v = False"

fun is_object :: "jsval \<Rightarrow> bool" where
  "is_object (JObj ps) = True"
| "is_object v = False"

text \<open>The normalised form of one action, written out.\<close>

definition normalized :: "jsval \<Rightarrow> jsval" where
  "normalized a =
     JObj [(''type'', if truthy (get_prop a ''type'') then get_prop a ''type'' else JStr ''unknown''),
           (''payload'', if truthy (get_prop a ''payload'') then get_prop a ''payload'' else JObj [])]"

lemma map_normalize_action:
  "map_outcome normalize_action xs = Returns ys
     \<longleftrightarrow> JNull \<notin> set xs \<and> JUndefined \<notin> set xs \<and> ys = map normalized xs"
proof (induction xs arbitrary: ys)
  case Nil
  show ?case by auto
next
  case (Cons a xs)
  show ?case
  proof (cases "a = JNull \<or> a = JUndefined")
    case True
    then show ?thesis by (auto simp: normalize_action_def)
  next
    case False
    then have "normalize_action a = Returns (normalized a)"
      by (simp add: normalize_action_def normalized_def js_or_def)
    with False Cons show ?thesis
      by (auto simp: and_then_Returns)
  qed
qed

lemma ruleData_actions:
  assumes "ruleData rt fd = Returns rd"
  shows "\<exists>raw. JSON_parse rt (actions fd) = Some raw
           \<and> (case raw of
                 JArr xs \<Rightarrow> JNull \<notin> set xs \<and> JUndefined \<notin> set xs
                             \<and> get_prop rd ''actions'' = JArr (map normalized xs)
               | other \<Rightarrow> get_prop rd ''actions'' = JArr [])"
proof -
  from assms obtain conds raw acts
    where raw: "parse_json rt (actions fd) = Returns raw"
      and acts: "(case raw of JArr xs \<Rightarrow> map_outcome normalize_action xs | other \<Rightarrow> Returns [])
                   = Returns acts"
      and rd: "get_prop rd ''actions'' = JArr acts"
    by (auto simp: ruleData_def and_then_Returns)
  from raw have "JSON_parse rt (actions fd) = Some raw"
    by (simp add: parse_json_def split: option.splits)
  moreover from acts rd
  have "case raw of
          JArr xs \<Rightarrow> JNull \<notin> set xs \<and> JUndefined \<notin> set xs
                      \<and> get_prop rd ''actions'' = JArr (map normalized xs)
        | other \<Rightarrow> get_prop rd ''actions'' = JArr []"
    by (cases raw) (auto simp: map_normalize_action)
  ultimately show ?thesis by blast
qed

text \<open>
  Claim C8, as amended. The actions of every rule that \<^verbatim>\<open>handleSubmit\<close> passes to
  \<^verbatim>\<open>onCreate\<close> are: the empty list when the parsed actions text is not an array; otherwise
  one object per parsed element, none of which is \<^verbatim>\<open>null\<close>, with exactly the properties
  \<^verbatim>\<open>type\<close> (the element's \<^verbatim>\<open>type\<close> when that is truthy, \<^verbatim>\<open>"unknown"\<close> otherwise) and
  \<^verbatim>\<open>payload\<close> (the element's \<^verbatim>\<open>payload\<close> when that is truthy, \<^verbatim>\<open>{}\<close> otherwise). So a
  submitted type is a string when the parsed type is a string or falsy, and a submitted
  payload is an object when the parsed payload is an object or falsy; a truthy value of
  another kind is passed on as it is.
\<close>

theorem submitted_actions_normalized:
  assumes "OnCreate rd \<in> set (handleSubmit rt fd)"
  shows "\<exists>raw. JSON_parse rt (actions fd) = Some raw
           \<and> (\<not> is_array raw \<longrightarrow> get_prop rd ''actions'' = JArr [])
           \<and> (\<forall>xs. raw = JArr xs \<longrightarrow>
                 JNull \<notin> set xs
                 \<and> get_prop rd ''actions'' = JArr (map normalized xs)
                 \<and> (\<forall>a \<in> set xs.
                       (is_string (get_prop a ''type'') \<or> \<not> truthy (get_prop a ''type'')
                          \<longrightarrow> is_string (get_prop (normalized a) ''type''))
                       \<and> (is_object (get_prop a ''payload'') \<or> \<not> truthy (get_prop a ''payload'')
                          \<longrightarrow> is_object (get_prop (normalized a) ''payload''))
                       \<and> (truthy (get_prop a ''type'')
                          \<longrightarrow> get_prop (normalized a) ''type'' = get_prop a ''type'')
                       \<and> (truthy (get_prop a ''payload'')
                          \<longrightarrow> get_prop (normalized a) ''payload'' = get_prop a ''payload'')))"
proof -
  from assms have "ruleData rt fd = Returns rd"
    by (simp add: handleSubmit_created)
  from ruleData_actions [OF this] obtain raw
    where raw: "JSON_parse rt (actions fd) = Some raw"
      and shape: "case raw of
                    JArr xs \<Rightarrow> JNull \<notin> set xs \<and> JUndefined \<notin> set xs
                                \<and> get_prop rd ''actions'' = JArr (map normalized xs)
                  | other \<Rightarrow> get_prop rd ''actions'' = JArr []"
    by blast
  have not_array: "\<not> is_array raw \<longrightarrow> get_prop rd ''actions'' = JArr []"
    using shape by (cases raw) auto
  have array: "JNull \<notin> set xs \<and> get_prop rd ''actions'' = JArr (map normalized xs)"
    if "raw = JArr xs" for xs
    using shape that by simp
  have elements:
    "(is_string (get_prop a ''type'') \<or> \<not> truthy (get_prop a ''type'')
        \<longrightarrow> is_string (get_prop (normalized a) ''type''))
     \<and> (is_object (get_prop a ''payload'') \<or> \<not> truthy (get_prop a ''payload'')
        \<longrightarrow> is_object (get_prop (normalized a) ''payload''))
     \<and> (truthy (get_prop a ''type'') \<longrightarrow> get_prop (normalized a) ''type'' = get_prop a ''type'')
     \<and> (truthy (get_prop a ''payload'')
        \<longrightarrow> get_prop (normalized a) ''payload'' = get_prop a ''payload'')" for a
    by (simp add: normalized_def)
  from raw not_array array elements show ?thesis by blast
qed

text \<open>A form with the actions text \<^verbatim>\<open>[{"type": "log"}, 7]\<close>, and the rule it submits.\<close>

definition log_form :: formData where
  \<open>log_form =
     \<lparr>name = ''n'', priority = PriorityNumber100, description = ''d'', conditions = ''{}'',
      actions = ''[{"type": "log"}, 7]'', tags = [], stop_on_match = True\<rparr>\<close>

definition log_rule :: jsval where
  "log_rule =
     JObj [(''name'', JStr ''n''), (''priority'', JNum 100), (''conditions'', JObj []),
           (''actions'', JArr [JObj [(''type'', JStr ''log''), (''payload'', JObj [])],
                               JObj [(''type'', JStr ''unknown''), (''payload'', JObj [])]]),
           (''tags'', JArr []), (''stop_on_match'', JBool True), (''description'', JStr ''d'')]"

theorem submitted_actions_witness:
  "OnCreate log_rule \<in> set (handleSubmit utc_runtime log_form)
   \<and> JSON_parse utc_runtime (actions log_form)
       = Some (JArr [JObj [(''type'', JStr ''log'')], JNum 7])
   \<and> get_prop log_rule ''actions''
       = JArr (map normalized [JObj [(''type'', JStr ''log'')], JNum 7])"
proof -
  have h: "OnCreate log_rule \<in> set (handleSubmit utc_runtime log_form)"
    by code_simp
  have p: "JSON_parse utc_runtime (actions log_form)
             = Some (JArr [JObj [(''type'', JStr ''log'')], JNum 7])"
    by code_simp
  from submitted_actions_normalized [OF h] p
  have "get_prop log_rule ''actions'' = JArr (map normalized [JObj [(''type'', JStr ''log'')], JNum 7])"
    by auto
  with h p show ?thesis by simp
qed

text \<open>
  The claim as stated fails: the actions text \<^verbatim>\<open>[{"type": 5, "payload": "x"}]\<close> is
  submitted with the number 5 as the type and the string \<^verbatim>\<open>"x"\<close> as the payload.
\<close>

definition odd_form :: formData where
  \<open>odd_form =
     \<lparr>name = ''n'', priority = PriorityNumber100, description = [], conditions = ''{}'',
      actions = ''[{"type": 5, "payload": "x"}]'', tags = [], stop_on_match = False\<rparr>\<close>

definition odd_rule :: jsval where
  "odd_rule =
     JObj [(''name'', JStr ''n''), (''priority'', JNum 100), (''conditions'', JObj []),
           (''actions'', JArr [JObj [(''type'', JNum 5), (''payload'', JStr ''x'')]]),
           (''tags'', JArr []), (''stop_on_match'', JBool False), (''description'', JNull)]"

theorem submitted_actions_counterexample:
  "OnCreate odd_rule \<in> set (handleSubmit utc_runtime odd_form)
   \<and> get_prop odd_rule ''actions'' = JArr [JObj [(''type'', JNum 5), (''payload'', JStr ''x'')]]
   \<and> \<not> is_string (JNum 5) \<and> \<not> is_object (JStr ''x'')"
  by code_simp

section \<open>When the callbacks are invoked\<close>

lemma ruleData_Returns_iff:
  "(\<exists>rd. ruleData rt fd = Returns rd)
     \<longleftrightarrow> (\<exists>conds raw. JSON_parse rt (conditions fd) = Some conds
                       \<and> JSON_parse rt (actions fd) = Some raw
                       \<and> (\<forall>xs. raw = JArr xs \<longrightarrow> JNull \<notin> set xs \<and> JUndefined \<notin> set xs))"
proof
  assume "\<exists>rd. ruleData rt fd = Returns rd"
  then obtain rd where rd: "ruleData rt fd = Returns rd" ..
  then obtain conds where "JSON_parse rt (conditions fd) = Some conds"
    by (auto simp: ruleData_def parse_json_def and_then_Returns split: option.splits)
  moreover from ruleData_actions [OF rd] obtain raw
    where raw: "JSON_parse rt (actions fd) = Some raw"
      and shape: "case raw of
                    JArr xs \<Rightarrow> JNull \<notin> set xs \<and> JUndefined \<notin> set xs
                                \<and> get_prop rd ''actions'' = JArr (map normalized xs)
                  | other \<Rightarrow> get_prop rd ''actions'' = JArr []"
    by blast
  moreover from shape
  have "\<forall>xs. raw = JArr xs \<longrightarrow> JNull \<notin> set xs \<and> JUndefined \<notin> set xs"
    by auto
  ultimately show "\<exists>conds raw. JSON_parse rt (conditions fd) = Some conds
                     \<and> JSON_parse rt (actions fd) = Some raw
                     \<and> (\<forall>xs. raw = JArr xs \<longrightarrow> JNull \<notin> set xs \<and> JUndefined \<notin> set xs)"
    by blast
next
  assume "\<exists>conds raw. JSON_parse rt (conditions fd) = Some conds
            \<and> JSON_parse rt (actions fd) = Some raw
            \<and> (\<forall>xs. raw = JArr xs \<longrightarrow> JNull \<notin> set xs \<and> JUndefined \<notin> set xs)"
  then obtain conds raw
    where c: "JSON_parse rt (conditions fd) = Some conds"
      and r: "JSON_parse rt (actions fd) = Some raw"
      and n: "\<forall>xs. raw = JArr xs \<longrightarrow> JNull \<notin> set xs \<and> JUndefined \<notin> set xs"
    by blast
  have "\<exists>acts. (case raw of JArr xs \<Rightarrow> map_outcome normalize_action xs | other \<Rightarrow> Returns [])
                 = Returns acts"
    using n by (cases raw) (simp_all add: map_normalize_action)
  then obtain acts
    where "(case raw of JArr xs \<Rightarrow> map_outcome normalize_action xs | other \<Rightarrow> Returns [])
             = Returns acts" ..
  with c r show "\<exists>rd. ruleData rt fd = Returns rd"
    by (simp add: ruleData_def parse_json_def)
qed

lemma handleSubmit_cases:
  "(\<exists>rd. ruleData rt fd = Returns rd
         \<and> handleSubmit rt fd
             = [ConsoleLog ''handleSubmit clicked'', ConsoleLog ''creating rule:'', OnCreate rd])
   \<or> ((\<forall>rd. ruleData rt fd \<noteq> Returns rd)
       \<and> handleSubmit rt fd
           = [ConsoleLog ''handleSubmit clicked'', ConsoleError ''invalid json'',
              Alert ''Invalid JSON in conditions or actions. Check console for details.''])"
  by (cases "ruleData rt fd") (simp_all add: handleSubmit_def)

lemma run_cases:
  assumes "rule \<noteq> JNull" "rule \<noteq> JUndefined"
  shows "run rt rule inputs =
           (case (JSON_parse rt (eventData inputs), JSON_parse rt (contextData inputs)) of
              (Some event, Some context) \<Rightarrow> [OnSimulate (get_prop rule ''id'') event context]
            | other \<Rightarrow> [Alert ''Invalid JSON''])"
  using assms by (simp add: run_def parse_json_def split: option.splits)

text \<open>
  Claim C5, as amended. \<^verbatim>\<open>handleSubmit\<close> invokes \<^verbatim>\<open>onCreate\<close> if and only if the conditions
  text and the actions text both parse and the parsed actions, when they are an array,
  have no \<^verbatim>\<open>null\<close> element (reading \<^verbatim>\<open>a.type\<close> of a \<^verbatim>\<open>null\<close> element throws inside the
  same \<^verbatim>\<open>try\<close>); for a rule that is not \<^verbatim>\<open>null\<close>, \<^verbatim>\<open>run\<close> invokes \<^verbatim>\<open>onSimulate\<close> if and only
  if the event text and the context text both parse. On the other path of either handler
  no callback is invoked; the handler only reports (\<^verbatim>\<open>console.error\<close>, \<^verbatim>\<open>alert\<close>). Neither
  handler calls a state setter on any path.
\<close>

theorem callbacks_invoked_iff:
  "((\<exists>e \<in> set (handleSubmit rt fd). is_callback e)
      \<longleftrightarrow> (\<exists>conds raw. JSON_parse rt (conditions fd) = Some conds
                        \<and> JSON_parse rt (actions fd) = Some raw
                        \<and> (\<forall>xs. raw = JArr xs \<longrightarrow> JNull \<notin> set xs \<and> JUndefined \<notin> set xs)))
   \<and> ((\<forall>e \<in> set (handleSubmit rt fd). \<not> is_callback e)
        \<longrightarrow> handleSubmit rt fd
              = [ConsoleLog ''handleSubmit clicked'', ConsoleError ''invalid json'',
                 Alert ''Invalid JSON in conditions or actions. Check console for details.''])
   \<and> (\<forall>e \<in> set (handleSubmit rt fd). \<not> is_state_change e)
   \<and> (rule \<noteq> JNull \<and> rule \<noteq> JUndefined \<longrightarrow>
        ((\<exists>e \<in> set (run rt rule inputs). is_callback e)
           \<longleftrightarrow> (\<exists>event context. JSON_parse rt (eventData inputs) = Some event
                                \<and> JSON_parse rt (contextData inputs) = Some context))
        \<and> ((\<forall>e \<in> set (run rt rule inputs). \<not> is_callback e)
             \<longrightarrow> run rt rule inputs = [Alert ''Invalid JSON''])
        \<and> (\<forall>e \<in> set (run rt rule inputs). \<not> is_state_change e))"
proof -
  have submit_iff:
    "(\<exists>e \<in> set (handleSubmit rt fd). is_callback e) \<longleftrightarrow> (\<exists>rd. ruleData rt fd = Returns rd)"
    using handleSubmit_cases [of rt fd] by auto
  have submit_else:
    "(\<forall>e \<in> set (handleSubmit rt fd). \<not> is_callback e)
       \<longrightarrow> handleSubmit rt fd
             = [ConsoleLog ''handleSubmit clicked'', ConsoleError ''invalid json'',
                Alert ''Invalid JSON in conditions or actions. Check console for details.'']"
    using handleSubmit_cases [of rt fd] by auto
  have submit_state: "\<forall>e \<in> set (handleSubmit rt fd). \<not> is_state_change e"
    using handleSubmit_cases [of rt fd] by auto
  have run_part:
    "((\<exists>e \<in> set (run rt rule inputs). is_callback e)
        \<longleftrightarrow> (\<exists>event context. JSON_parse rt (eventData inputs) = Some event
                             \<and> JSON_parse rt (contextData inputs) = Some context))
     \<and> ((\<forall>e \<in> set (run rt rule inputs). \<not> is_callback e)
          \<longrightarrow> run rt rule inputs = [Alert ''Invalid JSON''])
     \<and> (\<forall>e \<in> set (run rt rule inputs). \<not> is_state_change e)"
    if "rule \<noteq> JNull \<and> rule \<noteq> JUndefined"
    using that by (auto simp: run_cases split: option.splits)
  from submit_iff submit_else submit_state run_part show ?thesis
    unfolding ruleData_Returns_iff by blast
qed

text \<open>
  The default form and the inputs \<^verbatim>\<open>{"type": "purchase", "amount": 1000}\<close> and
  \<^verbatim>\<open>{"user": {"tier": "premium"}}\<close> of a simulation.
\<close>

definition purchase_inputs :: simulate_inputs where
  \<open>purchase_inputs =
     \<lparr>eventData = ''{"type": "purchase", "amount": 1000}'',
      contextData = ''{"user": {"tier": "premium"}}''\<rparr>\<close>

theorem callbacks_invoked_witness:
  "JSON_parse utc_runtime (conditions tagged_form) = Some (JObj [])
   \<and> JSON_parse utc_runtime (actions tagged_form) = Some (JArr [])
   \<and> is_callback (OnCreate tagged_rule)
   \<and> OnCreate tagged_rule \<in> set (handleSubmit utc_runtime tagged_form)
   \<and> run utc_runtime (JObj [(''id'', JStr ''r1'')]) purchase_inputs
       = [OnSimulate (JStr ''r1'')
            (JObj [(''type'', JStr ''purchase''), (''amount'', JNum 1000)])
            (JObj [(''user'', JObj [(''tier'', JStr ''premium'')])])]"
proof -
  have c: "JSON_parse utc_runtime (conditions tagged_form) = Some (JObj [])"
    by code_simp
  have a: "JSON_parse utc_runtime (actions tagged_form) = Some (JArr [])"
    by code_simp
  have r: "run utc_runtime (JObj [(''id'', JStr ''r1'')]) purchase_inputs
             = [OnSimulate (JStr ''r1'')
                  (JObj [(''type'', JStr ''purchase''), (''amount'', JNum 1000)])
                  (JObj [(''user'', JObj [(''tier'', JStr ''premium'')])])]"
    by code_simp
  have "\<exists>e \<in> set (handleSubmit utc_runtime tagged_form). is_callback e"
    using callbacks_invoked_iff [of utc_runtime tagged_form JNull purchase_inputs] c a by auto
  then have "OnCreate tagged_rule \<in> set (handleSubmit utc_runtime tagged_form)"
    by code_simp
  with c a r show ?thesis by simp
qed

text \<open>
  The claim as stated fails for \<^verbatim>\<open>handleSubmit\<close>: with the conditions text \<^verbatim>\<open>{}\<close> and the
  actions text \<^verbatim>\<open>[null]\<close> both texts parse, and \<^verbatim>\<open>onCreate\<close> is not invoked.
\<close>

definition null_action_form :: formData where
  "null_action_form =
     \<lparr>name = ''n'', priority = PriorityNumber100, description = [], conditions = ''{}'',
      actions = ''[null]'', tags = [], stop_on_match = False\<rparr>"

theorem callbacks_invoked_counterexample:
  "JSON_parse utc_runtime (conditions null_action_form) = Some (JObj [])
   \<and> JSON_parse utc_runtime (actions null_action_form) = Some (JArr [JNull])
   \<and> onCreate_calls (handleSubmit utc_runtime null_action_form) = []
   \<and> handleSubmit utc_runtime null_action_form
       = [ConsoleLog ''handleSubmit clicked'', ConsoleError ''invalid json'',
          Alert ''Invalid JSON in conditions or actions. Check console for details.'']"
  by code_simp

section \<open>The result panel shows the actions exactly for a match\<close>

lemma render_falsy_no_actions: "n \<in> set (render_falsy v) \<Longrightarrow> \<not> shows_actions n"
  by (cases v) auto

lemma stringify_child_no_actions: "n \<in> set (stringify_child rt v) \<Longrightarrow> \<not> shows_actions n"
  by (auto simp: stringify_child_def split: if_splits)

lemma actions_block_shows: "\<exists>n \<in> set (actions_block rt result). shows_actions n"
  by (simp add: actions_block_def)

text \<open>
  Claim C4. For every simulate result that \<^verbatim>\<open>SimulateModal\<close> renders (the panel is
  rendered for a truthy \<^verbatim>\<open>result\<close> only), the block "Actions that would execute:" with
  the JSON text of \<^verbatim>\<open>result.would_execute\<close> is displayed if and only if \<^verbatim>\<open>result.matched\<close>
  is truthy: for the boolean \<^verbatim>\<open>matched\<close> of a Match Result, if and only if it is \<^verbatim>\<open>true\<close>.
\<close>

theorem actions_block_iff_matched:
  "((\<exists>n \<in> set (resultPanel rt result). shows_actions n)
      \<longleftrightarrow> truthy result \<and> truthy (get_prop result ''matched''))
   \<and> (\<forall>b. truthy result \<and> get_prop result ''matched'' = JBool b
          \<longrightarrow> ((\<exists>n \<in> set (resultPanel rt result). shows_actions n) \<longleftrightarrow> b))
   \<and> (truthy result \<and> truthy (get_prop result ''matched'')
        \<longrightarrow> (\<exists>rest. resultPanel rt result
                       = [Elem ''div'' (Elem ''div'' [Text ''Matched''] # actions_block rt result @ rest)]))"
proof -
  have shown: "(\<exists>n \<in> set (resultPanel rt result). shows_actions n)
                 \<longleftrightarrow> truthy result \<and> truthy (get_prop result ''matched'')"
  proof (cases "truthy result")
    case False
    then show ?thesis
      using render_falsy_no_actions [of _ result] by (auto simp: resultPanel_def)
  next
    case True
    show ?thesis
    proof (cases "truthy (get_prop result ''matched'')")
      case True
      with \<open>truthy result\<close> show ?thesis
        using actions_block_shows [of rt result] by (auto simp: resultPanel_def)
    next
      case False
      with \<open>truthy result\<close> show ?thesis
        using render_falsy_no_actions stringify_child_no_actions
        by (auto simp: resultPanel_def)
    qed
  qed
  have block: "truthy result \<and> truthy (get_prop result ''matched'')
        \<longrightarrow> (\<exists>rest. resultPanel rt result
                       = [Elem ''div'' (Elem ''div'' [Text ''Matched''] # actions_block rt result @ rest)])"
    by (simp add: resultPanel_def)
  from shown block show ?thesis by auto
qed

text \<open>A matched and an unmatched Match Result.\<close>

definition matched_result :: jsval where
  "matched_result =
     JObj [(''matched'', JBool True),
           (''would_execute'', JArr [JObj [(''type'', JStr ''log''), (''payload'', JObj [])]]),
           (''explanation'', JObj [(''result'', JBool True)])]"

definition unmatched_result :: jsval where
  "unmatched_result =
     JObj [(''matched'', JBool False), (''would_execute'', JArr []),
           (''explanation'', JObj [(''result'', JBool False)])]"

theorem actions_block_witness:
  "truthy matched_result \<and> get_prop matched_result ''matched'' = JBool True
   \<and> resultPanel utc_runtime matched_result
       = [Elem ''div''
            [Elem ''div'' [Text ''Matched''],
             Elem ''div'' [Elem ''strong'' [Text ''Actions that would execute:'']],
             Elem ''pre'' [Text (JSON_stringify_2 (get_prop matched_result ''would_execute''))],
             Elem ''div'' [Elem ''strong'' [Text ''Explanation:''],
                           Elem ''pre'' [Text (JSON_stringify_2 (JObj [(''result'', JBool True)]))]]]]
   \<and> resultPanel utc_runtime unmatched_result
       = [Elem ''div''
            [Elem ''div'' [Text ''Not Matched''],
             Elem ''div'' [Elem ''strong'' [Text ''Explanation:''],
                           Elem ''pre'' [Text (JSON_stringify_2 (JObj [(''result'', JBool False)]))]]]]"
proof -
  have t: "truthy matched_result \<and> get_prop matched_result ''matched'' = JBool True"
    by (simp add: matched_result_def)
  have m: "resultPanel utc_runtime matched_result
       = [Elem ''div''
            [Elem ''div'' [Text ''Matched''],
             Elem ''div'' [Elem ''strong'' [Text ''Actions that would execute:'']],
             Elem ''pre'' [Text (JSON_stringify_2 (get_prop matched_result ''would_execute''))],
             Elem ''div'' [Elem ''strong'' [Text ''Explanation:''],
                           Elem ''pre'' [Text (JSON_stringify_2 (JObj [(''result'', JBool True)]))]]]]"
    by code_simp
  have u: "resultPanel utc_runtime unmatched_result
       = [Elem ''div''
            [Elem ''div'' [Text ''Not Matched''],
             Elem ''div'' [Elem ''strong'' [Text ''Explanation:''],
                           Elem ''pre'' [Text (JSON_stringify_2 (JObj [(''result'', JBool False)]))]]]]"
    by code_simp
  from actions_block_iff_matched [of utc_runtime matched_result] t m u
  show ?thesis by simp
qed

section \<open>The default template of the create-rule form\<close>

text \<open>
  Modelled from the spec: the Condition Node of its data model (section 3) and the wire
  shape of a condition (section 6); the code that compiles and serialises conditions is
  in the back end, which is not among the sources. A logical node is
  \<^verbatim>\<open>{"type": "AND"|"OR"|"NOT", "clauses": [...]}\<close>, a leaf is
  \<^verbatim>\<open>{"field": ..., "op": ..., "value": ...}\<close> whose field is a dotted path or the function
  call \<^verbatim>\<open>{"fn": name, "args": [...]}\<close>.
\<close>

datatype operand = Path string | FunctionCall string "string list"

datatype kind = AND | OR | NOT

datatype condition = Logical kind "condition list" | Leaf operand string jsval

fun kind_name :: "kind \<Rightarrow> string" where
  "kind_name AND = ''AND''"
| "kind_name OR = ''OR''"
| "kind_name NOT = ''NOT''"

fun wire_operand :: "operand \<Rightarrow> jsval" where
  "wire_operand (Path p) = JStr p"
| "wire_operand (FunctionCall f args) = JObj [(''fn'', JStr f), (''args'', JArr (map JStr args))]"

fun wire :: "condition \<Rightarrow> jsval" where
  "wire (Logical k cs) = JObj [(''type'', JStr (kind_name k)), (''clauses'', JArr (map wire cs))]"
| "wire (Leaf f op v) = JObj [(''field'', wire_operand f), (''op'', JStr op), (''value'', v)]"

text \<open>
  The condition of the scenario of section 8 of the spec:
  \<^verbatim>\<open>AND[ context.user.tier == "premium", event.cart.total >= 1000 ]\<close>.
\<close>

definition scenario_condition :: condition where
  "scenario_condition =
     Logical AND [Leaf (Path ''context.user.tier'') ''=='' (JStr ''premium''),
                  Leaf (Path ''event.cart.total'') ''>='' (JNum 1000)]"

text \<open>
  Claim C2. The conditions text the create-rule form starts with is the JSON text of the
  scenario's condition, the AND of the leaf \<^verbatim>\<open>context.user.tier == "premium"\<close> followed by
  the leaf \<^verbatim>\<open>event.cart.total >= 1000\<close>, and its actions text is the JSON text of the two
  default actions. Submitted untouched (on a runtime whose \<^verbatim>\<open>JSON.parse\<close> reads these two
  texts back), the form declares a rule with exactly that condition and those actions.
\<close>

theorem default_template_is_scenario:
  "conditions (initial_formData rt) = JSON_stringify rt (wire scenario_condition)
   \<and> actions (initial_formData rt) = JSON_stringify rt default_actions
   \<and> (JSON_parse rt (JSON_stringify rt (wire scenario_condition)) = Some (wire scenario_condition)
        \<and> JSON_parse rt (JSON_stringify rt default_actions) = Some default_actions
      \<longrightarrow> (\<exists>rd. handleSubmit rt (initial_formData rt)
                    = [ConsoleLog ''handleSubmit clicked'', ConsoleLog ''creating rule:'', OnCreate rd]
                 \<and> get_prop rd ''conditions'' = wire scenario_condition
                 \<and> get_prop rd ''actions'' = default_actions))"
proof -
  have w: "wire scenario_condition = default_conditions"
    by (simp add: scenario_condition_def default_conditions_def)
  have texts: "conditions (initial_formData rt) = JSON_stringify rt (wire scenario_condition)"
    "actions (initial_formData rt) = JSON_stringify rt default_actions"
    by (simp_all add: w initial_formData_def)
  have norm: "map_outcome normalize_action
                [JObj [(''type'', JStr ''apply_discount''), (''payload'', JObj [(''percent'', JNum 10)])],
                 JObj [(''type'', JStr ''log''), (''payload'', JObj [(''tag'', JStr ''promo_applied'')])]]
              = Returns
                [JObj [(''type'', JStr ''apply_discount''), (''payload'', JObj [(''percent'', JNum 10)])],
                 JObj [(''type'', JStr ''log''), (''payload'', JObj [(''tag'', JStr ''promo_applied'')])]]"
    by (simp add: normalize_action_def js_or_def)
  have submit:
    "\<exists>rd. handleSubmit rt (initial_formData rt)
             = [ConsoleLog ''handleSubmit clicked'', ConsoleLog ''creating rule:'', OnCreate rd]
          \<and> get_prop rd ''conditions'' = wire scenario_condition
          \<and> get_prop rd ''actions'' = default_actions"
    if "JSON_parse rt (JSON_stringify rt (wire scenario_condition)) = Some (wire scenario_condition)
        \<and> JSON_parse rt (JSON_stringify rt default_actions) = Some default_actions"
    using that norm
    by (simp add: handleSubmit_def ruleData_def parse_json_def texts)
       (simp add: default_actions_def)
  from texts submit show ?thesis by blast
qed

theorem default_template_witness:
  "JSON_parse utc_runtime (JSON_stringify utc_runtime (wire scenario_condition))
     = Some (wire scenario_condition)
   \<and> JSON_parse utc_runtime (JSON_stringify utc_runtime default_actions) = Some default_actions
   \<and> onCreate_calls (handleSubmit utc_runtime (initial_formData utc_runtime))
       = [JObj [(''name'', JStr ''10% off for premium users''), (''priority'', JNum 100),
                (''conditions'', wire scenario_condition), (''actions'', default_actions),
                (''tags'', JArr [JStr ''discount'', JStr ''promo'']),
                (''stop_on_match'', JBool False), (''description'', JNull)]]"
proof -
  have c: "JSON_parse utc_runtime (JSON_stringify utc_runtime (wire scenario_condition))
             = Some (wire scenario_condition)"
    by code_simp
  have a: "JSON_parse utc_runtime (JSON_stringify utc_runtime default_actions) = Some default_actions"
    by code_simp
  from default_template_is_scenario [of utc_runtime] c a
  obtain rd where "handleSubmit utc_runtime (initial_formData utc_runtime)
                     = [ConsoleLog ''handleSubmit clicked'', ConsoleLog ''creating rule:'', OnCreate rd]"
    by blast
  then have "onCreate_calls (handleSubmit utc_runtime (initial_formData utc_runtime)) = [rd]"
    by simp
  moreover have "onCreate_calls (handleSubmit utc_runtime (initial_formData utc_runtime))
       = [JObj [(''name'', JStr ''10% off for premium users''), (''priority'', JNum 100),
                (''conditions'', wire scenario_condition), (''actions'', default_actions),
                (''tags'', JArr [JStr ''discount'', JStr ''promo'']),
                (''stop_on_match'', JBool False), (''description'', JNull)]]"
    by code_simp
  ultimately show ?thesis using c a by simp
qed

section \<open>processClause on function calls\<close>


lemma processClause_logical:
  assumes "truthy clause" "truthy (get_prop clause ''type'')"
    and "get_prop clause ''clauses'' = JArr cs"
  shows "processClause rt clause st = forEach (processClause rt) cs st"
  using assms by (subst processClause.simps) simp

text \<open>
  Claim C1: the code does not do what the claim says. A leaf in the wire format whose
  \<^verbatim>\<open>field\<close> is the function call \<^verbatim>\<open>{"fn": "days_since", "args": [p]}\<close> has no \<^verbatim>\<open>fn\<close> of its
  own, so it is not taken for a function call; its \<^verbatim>\<open>field\<close> is an object, which has no
  \<^verbatim>\<open>startsWith\<close>, and \<^verbatim>\<open>processClause\<close> throws a TypeError, whatever the path, operator and
  value. \<^verbatim>\<open>getExampleData\<close> throws with it, for a rule whose condition is such a leaf or has
  one among the clauses of a logical node.
\<close>

theorem wire_function_call_throws:
  "processClause rt (wire (Leaf (FunctionCall ''days_since'' [p]) op v)) st = Throws TypeError
   \<and> getExampleData rt
        (JObj [(''id'', i), (''conditions'', wire (Leaf (FunctionCall ''days_since'' [p]) op v))])
       = Throws TypeError
   \<and> getExampleData rt
        (JObj [(''id'', i),
               (''conditions'', wire (Logical k [Leaf (FunctionCall ''days_since'' [p]) op v]))])
       = Throws TypeError"
proof -
  let ?leaf = "JObj [(''field'', JObj [(''fn'', JStr ''days_since''), (''args'', JArr [JStr p])]),
                     (''op'', JStr op), (''value'', v)]"
  have w: "wire (Leaf (FunctionCall ''days_since'' [p]) op v) = ?leaf"
    by simp
  have leaf: "processClause rt ?leaf st' = Throws TypeError" for st'
    by (subst processClause.simps) (simp add: fieldComparison_def js_or_def)
  have single: "getExampleData rt (JObj [(''id'', i), (''conditions'', ?leaf)]) = Throws TypeError"
    by (simp add: getExampleData_def processConditions_def js_or_def leaf)
  have nested: "getExampleData rt
          (JObj [(''id'', i),
                 (''conditions'', JObj [(''type'', JStr (kind_name k)), (''clauses'', JArr [?leaf])])])
        = Throws TypeError"
    by (simp add: getExampleData_def processConditions_def js_or_def leaf)
  from leaf [of st] single nested show ?thesis
    by simp
qed

text \<open>
  The rule whose condition is
  \<^verbatim>\<open>{"type": "AND", "clauses": [{"field": {"fn": "days_since", "args":
  ["context.user.signup_date"]}, "op": ">=", "value": 3}]}\<close>.
\<close>

definition signup_rule :: jsval where
  "signup_rule =
     JObj [(''id'', JStr ''r1''),
           (''conditions'',
              JObj [(''type'', JStr ''AND''),
                    (''clauses'', JArr
                       [JObj [(''field'', JObj [(''fn'', JStr ''days_since''),
                                               (''args'', JArr [JStr ''context.user.signup_date''])]),
                              (''op'', JStr ''>=''), (''value'', JNum 3)]])])]"

theorem wire_function_call_example:
  "getExampleData utc_runtime signup_rule = Throws TypeError"
  using wire_function_call_throws
          [of utc_runtime "''context.user.signup_date''" "''>=''" "JNum 3" initial_state
              "JStr ''r1''" AND]
  by (simp add: signup_rule_def)




section \<open>processClause terminates and visits the clauses in order\<close>

text \<open>
  The recursion of \<^verbatim>\<open>processClause\<close> run with a bound on the depth of the calls:
  \<open>None\<close> when a call would go deeper than the bound allows.
\<close>

fun forEach_within ::
  "('a \<Rightarrow> 's \<Rightarrow> 's outcome option) \<Rightarrow> 'a list \<Rightarrow> 's \<Rightarrow> 's outcome option" where
  "forEach_within f [] st = Some (Returns st)"
| "forEach_within f (x # xs) st =
     (case f x st of
        None \<Rightarrow> None
      | Some (Returns st') \<Rightarrow> forEach_within f xs st'
      | Some other \<Rightarrow> Some other)"

primrec processClause_within :: "nat \<Rightarrow> runtime \<Rightarrow> jsval \<Rightarrow> state \<Rightarrow> state outcome option" where
  "processClause_within 0 rt clause st = None"
| "processClause_within (Suc n) rt clause st =
     (if \<not> truthy clause then Some (Returns st)
      else if truthy (get_prop clause ''type'') \<and> truthy (get_prop clause ''clauses'') then
        (case get_prop clause ''clauses'' of
           JArr cs \<Rightarrow> forEach_within (processClause_within n rt) cs st
         | other \<Rightarrow> Some (Throws TypeError))
      else if truthy (get_prop clause ''fn'') then Some (functionCall rt clause st)
      else Some (fieldComparison rt clause st))"

text \<open>
  The clauses of a condition that are not logical nodes with a list of clauses, from left
  to right: what is left of the tree when every such node is replaced by its children.
\<close>

function leaves :: "jsval \<Rightarrow> jsval list" where
  "leaves clause =
     (if truthy clause \<and> truthy (get_prop clause ''type'') \<and> truthy (get_prop clause ''clauses'')
      then (case get_prop clause ''clauses'' of
              JArr cs \<Rightarrow> concat (map leaves cs)
            | other \<Rightarrow> [clause])
      else [clause])"
  by pat_completeness auto
termination
  by (relation "measure size") (auto simp: size_clauses)

declare leaves.simps [simp del]

lemma forEach_single: "forEach f [x] st = f x st"
  by (cases "f x st") simp_all

lemma forEach_append: "forEach f (xs @ ys) st = and_then (forEach f xs st) (forEach f ys)"
proof (induction xs arbitrary: st)
  case Nil
  show ?case by simp
next
  case (Cons x xs)
  show ?case
    by (cases "f x st") (simp_all add: Cons)
qed

lemma forEach_concat: "forEach f (concat xss) st = forEach (\<lambda>xs. forEach f xs) xss st"
proof (induction xss arbitrary: st)
  case Nil
  show ?case by simp
next
  case (Cons xs xss)
  have "forEach f (concat xss) = forEach (\<lambda>xs. forEach f xs) xss"
    by (rule ext) (rule Cons)
  then show ?case by (simp add: forEach_append)
qed

lemma forEach_map: "forEach f (map g xs) st = forEach (\<lambda>x. f (g x)) xs st"
proof (induction xs arbitrary: st)
  case Nil
  show ?case by simp
next
  case (Cons x xs)
  have "forEach f (map g xs) = forEach (\<lambda>x. f (g x)) xs"
    by (rule ext) (rule Cons)
  then show ?case by simp
qed

lemma forEach_within_total:
  "(\<And>x s. x \<in> set xs \<Longrightarrow> f x s = Some (g x s))
     \<Longrightarrow> forEach_within f xs st = Some (forEach g xs st)"
proof (induction xs arbitrary: st)
  case Nil
  show ?case by simp
next
  case (Cons x xs)
  have tail: "forEach_within f xs s = Some (forEach g xs s)" for s
    by (rule Cons.IH) (simp add: Cons.prems)
  have head: "f x st = Some (g x st)"
    by (simp add: Cons.prems)
  show ?case
    by (cases "g x st") (simp_all add: head tail)
qed

lemma processClause_within_enough:
  "size clause < n \<Longrightarrow> processClause_within n rt clause st = Some (processClause rt clause st)"
proof (induction n arbitrary: clause st)
  case 0
  then show ?case by simp
next
  case (Suc n)
  show ?case
  proof (cases "truthy clause \<and> truthy (get_prop clause ''type'')
                \<and> truthy (get_prop clause ''clauses'')")
    case False
    then show ?thesis
      by (subst processClause.simps) auto
  next
    case True
    show ?thesis
    proof (cases "get_prop clause ''clauses''")
      case (JArr cs)
      have "processClause_within n rt c s = Some (processClause rt c s)" if "c \<in> set cs" for c s
      proof (rule Suc.IH)
        from that JArr have "size c < size clause" by (simp add: size_clauses)
        with Suc.prems show "size c < n" by simp
      qed
      then have "forEach_within (processClause_within n rt) cs st
                   = Some (forEach (processClause rt) cs st)"
        by (rule forEach_within_total)
      with True JArr show ?thesis
        by (subst processClause.simps) simp
    qed (use True in \<open>subst processClause.simps, simp\<close>)+
  qed
qed

lemma processClause_leaves:
  "processClause rt clause st = forEach (processClause rt) (leaves clause) st"
proof (induction clause arbitrary: st rule: leaves.induct)
  case (1 clause)
  show ?case
  proof (cases "truthy clause \<and> truthy (get_prop clause ''type'')
                \<and> truthy (get_prop clause ''clauses'')")
    case False
    then have "leaves clause = [clause]"
      by (subst leaves.simps) auto
    then show ?thesis
      by (simp only: forEach_single)
  next
    case True
    show ?thesis
    proof (cases "get_prop clause ''clauses''")
      case (JArr cs)
      have step: "processClause rt c s = forEach (processClause rt) (leaves c) s"
        if "c \<in> set cs" for c s
        using "1" True JArr that by blast
      have "forEach (processClause rt) (leaves clause) st
              = forEach (\<lambda>c. forEach (processClause rt) (leaves c)) cs st"
        using True JArr by (subst leaves.simps) (simp add: forEach_concat forEach_map)
      also have "\<dots> = forEach (processClause rt) cs st"
        by (rule forEach_cong) (simp_all add: step)
      also have "\<dots> = processClause rt clause st"
        using True JArr by (simp add: processClause_logical)
      finally show ?thesis by simp
    next
      case JUndefined
      with True show ?thesis by simp
    next
      case JNull
      with True show ?thesis by simp
    next
      case (JBool b)
      with True have "leaves clause = [clause]" by (subst leaves.simps) simp
      then show ?thesis by (simp only: forEach_single)
    next
      case (JNum i)
      with True have "leaves clause = [clause]" by (subst leaves.simps) simp
      then show ?thesis by (simp only: forEach_single)
    next
      case JNaN
      with True show ?thesis by simp
    next
      case JInfinity
      with True have "leaves clause = [clause]" by (subst leaves.simps) simp
      then show ?thesis by (simp only: forEach_single)
    next
      case JNegInfinity
      with True have "leaves clause = [clause]" by (subst leaves.simps) simp
      then show ?thesis by (simp only: forEach_single)
    next
      case (JStr s)
      with True have "leaves clause = [clause]" by (subst leaves.simps) simp
      then show ?thesis by (simp only: forEach_single)
    next
      case (JObj ps)
      with True have "leaves clause = [clause]" by (subst leaves.simps) simp
      then show ?thesis by (simp only: forEach_single)
    qed
  qed
qed

text \<open>
  Claim C7. For every condition tree (every JSON value is a finite tree; a NOT node has
  one child, AND and OR nodes any number), \<^verbatim>\<open>processClause\<close> terminates: its recursion
  never goes deeper than the size of the tree, and run with any larger bound it gives the
  outcome of \<open>processClause\<close>. It recurses into the elements of a logical node's
  \<^verbatim>\<open>clauses\<close> in the order of the list, up to the first that throws: its outcome is that
  of processing the leaves of the tree one after the other, from left to right.
\<close>

theorem processClause_terminates_in_order:
  "(size clause < n \<longrightarrow> processClause_within n rt clause st = Some (processClause rt clause st))
   \<and> processClause rt clause st = forEach (processClause rt) (leaves clause) st
   \<and> (\<forall>cs. truthy clause \<and> truthy (get_prop clause ''type'') \<and> get_prop clause ''clauses'' = JArr cs
          \<longrightarrow> processClause rt clause st = forEach (processClause rt) cs st
              \<and> leaves clause = concat (map leaves cs))"
proof -
  have "leaves clause = concat (map leaves cs)"
    if "truthy clause \<and> truthy (get_prop clause ''type'') \<and> get_prop clause ''clauses'' = JArr cs"
    for cs
    using that by (subst leaves.simps) simp
  then show ?thesis
    using processClause_within_enough [of clause n rt st] processClause_leaves [of rt clause st]
    by (auto simp: processClause_logical)
qed

text \<open>
  The condition \<^verbatim>\<open>NOT[ AND[ context.user.tier == "premium", OR[], event.cart.total >= 1000 ] ]\<close>.
\<close>

definition nested_condition :: jsval where
  "nested_condition =
     wire (Logical NOT
       [Logical AND
          [Leaf (Path ''context.user.tier'') ''=='' (JStr ''premium''),
           Logical OR [],
           Leaf (Path ''event.cart.total'') ''>='' (JNum 1000)]])"

theorem processClause_terminates_witness:
  "size nested_condition < 100
   \<and> processClause_within 100 utc_runtime nested_condition initial_state
       = Some (Returns \<lparr>eventExample = [(''cart'', JObj [(''total'', JNum 1100)])],
                        contextExample = [(''user'', JObj [(''tier'', JStr ''premium'')])],
                        dates = 0\<rparr>)
   \<and> leaves nested_condition
       = [wire (Leaf (Path ''context.user.tier'') ''=='' (JStr ''premium'')),
          wire (Leaf (Path ''event.cart.total'') ''>='' (JNum 1000))]"
proof -
  have s: "size nested_condition < 100"
    by (simp add: nested_condition_def)
  have r: "processClause utc_runtime nested_condition initial_state
       = Returns \<lparr>eventExample = [(''cart'', JObj [(''total'', JNum 1100)])],
                  contextExample = [(''user'', JObj [(''tier'', JStr ''premium'')])],
                  dates = 0\<rparr>"
    by code_simp
  have l: "leaves nested_condition
       = [wire (Leaf (Path ''context.user.tier'') ''=='' (JStr ''premium'')),
          wire (Leaf (Path ''event.cart.total'') ''>='' (JNum 1000))]"
    by code_simp
  from processClause_terminates_in_order [of nested_condition 100 utc_runtime initial_state] s r l
  show ?thesis by simp
qed

section \<open>The example sign-up date\<close>




















































end
